theory Spec2Isabelle
  imports Main "HOL-Library.Word" "HOL-Library.AList"
begin

unbundle bit_operations_syntax

section \<open>The BJData decoder of pybj (src/decoder.c, src/decoder.h)\<close>

text \<open>
  The decoder is a C extension of CPython. The embedding keeps the C functions' names,
  case order and checks. What C does with pointers and reference counts is abstracted:
  a chunk returned by a read function is the list of its bytes, \<open>malloc\<close>,
  \<open>PyList_New\<close>, \<open>PyBytes_FromStringAndSize\<close> and \<open>PyArray_SimpleNew\<close> always
  succeed, \<open>long\<close> and \<open>long long\<close> are 64 bits wide and the host stores integers
  in little-endian order (LP64: x86-64, AArch64). \<open>Py_ssize_t\<close> values are \<open>int\<close>.
  The macro \<open>USE__BJDATA\<close> is taken as defined.
\<close>

subsection \<open>Markers\<close>

text \<open>
  Modelled from the spec: markers.h is not among the sources. The byte of each marker is
  the one the spec's data model lists; \<open>TYPE_NONE\<close> is the zero byte, used internally
  only.
\<close>

type_synonym byte = char

abbreviation (input) TYPE_NONE :: byte where "TYPE_NONE \<equiv> CHR 0x00"
abbreviation (input) TYPE_NULL :: byte where "TYPE_NULL \<equiv> CHR ''Z''"
abbreviation (input) TYPE_NOOP :: byte where "TYPE_NOOP \<equiv> CHR ''N''"
abbreviation (input) TYPE_BOOL_TRUE :: byte where "TYPE_BOOL_TRUE \<equiv> CHR ''T''"
abbreviation (input) TYPE_BOOL_FALSE :: byte where "TYPE_BOOL_FALSE \<equiv> CHR ''F''"
abbreviation (input) TYPE_INT8 :: byte where "TYPE_INT8 \<equiv> CHR ''i''"
abbreviation (input) TYPE_UINT8 :: byte where "TYPE_UINT8 \<equiv> CHR ''U''"
abbreviation (input) TYPE_INT16 :: byte where "TYPE_INT16 \<equiv> CHR ''I''"
abbreviation (input) TYPE_UINT16 :: byte where "TYPE_UINT16 \<equiv> CHR ''u''"
abbreviation (input) TYPE_INT32 :: byte where "TYPE_INT32 \<equiv> CHR ''l''"
abbreviation (input) TYPE_UINT32 :: byte where "TYPE_UINT32 \<equiv> CHR ''m''"
abbreviation (input) TYPE_INT64 :: byte where "TYPE_INT64 \<equiv> CHR ''L''"
abbreviation (input) TYPE_UINT64 :: byte where "TYPE_UINT64 \<equiv> CHR ''M''"
abbreviation (input) TYPE_FLOAT16 :: byte where "TYPE_FLOAT16 \<equiv> CHR ''h''"
abbreviation (input) TYPE_FLOAT32 :: byte where "TYPE_FLOAT32 \<equiv> CHR ''d''"
abbreviation (input) TYPE_FLOAT64 :: byte where "TYPE_FLOAT64 \<equiv> CHR ''D''"
abbreviation (input) TYPE_HIGH_PREC :: byte where "TYPE_HIGH_PREC \<equiv> CHR ''H''"
abbreviation (input) TYPE_CHAR :: byte where "TYPE_CHAR \<equiv> CHR ''C''"
abbreviation (input) TYPE_STRING :: byte where "TYPE_STRING \<equiv> CHR ''S''"
abbreviation (input) OBJECT_START :: byte where "OBJECT_START \<equiv> CHR 0x7B"
abbreviation (input) OBJECT_END :: byte where "OBJECT_END \<equiv> CHR 0x7D"
abbreviation (input) ARRAY_START :: byte where "ARRAY_START \<equiv> CHR ''[''"
abbreviation (input) ARRAY_END :: byte where "ARRAY_END \<equiv> CHR '']''"
abbreviation (input) CONTAINER_TYPE :: byte where "CONTAINER_TYPE \<equiv> CHR ''$''"
abbreviation (input) CONTAINER_COUNT :: byte where "CONTAINER_COUNT \<equiv> CHR ''#''"

abbreviation (input) BUFFER_FP_SIZE :: int where "BUFFER_FP_SIZE \<equiv> 256"
abbreviation (input) IO_SEEK_CUR :: int where "IO_SEEK_CUR \<equiv> 1"

subsection \<open>Python values and exceptions\<close>

text \<open>
  An exception is either the decoder's own \<open>DecoderException\<close>, which
  \<open>RAISE_DECODER_EXCEPTION\<close> builds from a message and \<open>total_read\<close>, or any
  other exception, kept by its name.
\<close>

datatype pyerr = DecoderException string int | OtherException string

datatype npy_type =
    NPY_HALF | NPY_FLOAT | NPY_DOUBLE | NPY_BYTE | NPY_UBYTE | NPY_SHORT | NPY_USHORT
  | NPY_INT | NPY_UINT | NPY_LONGLONG | NPY_ULONGLONG | NPY_STRING | NPY_USERDEF

text \<open>
  Modelled from the spec: python_funcs.c (the IEEE-754 routines
  \<open>_pyfuncs_ubj_PyFloat_Unpack4\<close> and \<open>_pyfuncs_ubj_PyFloat_Unpack8\<close>) is not
  among the sources. The double they return is kept as the bit pattern it was converted
  from, most significant byte first.
\<close>

datatype double = Binary32 "32 word" | Binary64 "64 word"

text \<open>
  A dictionary keeps its keys in insertion order; the decoder only ever stores string
  keys. \<open>PyArray\<close> is a numpy array: element type, shape, and the bytes read into its
  storage. \<open>PyDecimal\<close> is what the \<open>decimal.Decimal\<close> constructor made of a string.
\<close>

datatype pyobject =
    PyNone
  | PyBool bool
  | PyLong int
  | PyFloat double
  | PyUnicode string
  | PyDecimal string
  | PyBytes "byte list"
  | PyList "pyobject list"
  | PyTuple "pyobject list"
  | PyDict "(string \<times> pyobject) list"
  | PyArray npy_type "int list" "byte list"

subsection \<open>The decoder buffer\<close>

type_synonym hook = "pyobject \<Rightarrow> pyerr + pyobject"

record decoder_prefs =
  object_hook :: "hook option"
  object_pairs_hook :: "hook option"
  no_bytes :: bool
  intern_object_keys :: bool
  islittle :: bool

text \<open>
  The input callable is a script of what its successive calls do: raise, return an
  object without the buffer interface, or return bytes. A script that has run out
  returns empty bytes (end of input). The seek callable maps its two arguments to the
  exception it raises, if any.
\<close>

datatype call_result = Raises pyerr | NoBuffer | Returns "byte list"

datatype read_func = READ_FIXED | READ_CALLABLE | READ_BUFFERED

datatype event = ReadCall int | SeekCall int int | ViewRelease | HookCall pyobject

text \<open>
  The fields of \<open>_bjdata_decoder_buffer_t\<close>, followed by the part of the interpreter
  the decoder works on: \<open>err\<close> is CPython's error indicator, \<open>trace\<close> records the
  calls made to the user's callables and the releases of the view, in order,
  \<open>PyDec_Type\<close> is the \<open>decimal.Decimal\<close> constructor and \<open>recursion_left\<close> the
  number of nested calls \<open>Py_EnterRecursiveCall\<close> still allows. After
  \<open>PyBuffer_Release\<close> the field \<open>view\<close> is stale and \<open>view_set\<close> is false.
\<close>

record decoder_buffer =
  input :: "call_result list"
  seek :: "(int \<Rightarrow> int \<Rightarrow> pyerr option) option"
  read_func :: read_func
  view :: "byte list"
  view_set :: bool
  pos :: int
  total_read :: int
  prefs :: decoder_prefs
  err :: "pyerr option"
  trace :: "event list"
  PyDec_Type :: "string \<Rightarrow> pyerr + pyobject"
  recursion_left :: nat

text \<open>
  A C function of the decoder returns an object (\<open>Ret\<close>), or \<open>NULL\<close> with an
  exception set (\<open>Bail\<close>); both leave a buffer behind. The loops that read markers
  and the recursion into nested containers run on fuel in the model: such a function
  returns an optional result, and \<open>None\<close> says that the fuel given was too little.
\<close>

datatype 'a result = Ret 'a decoder_buffer | Bail decoder_buffer

definition set_decoder_exception :: "string \<Rightarrow> decoder_buffer \<Rightarrow> decoder_buffer" where
  "set_decoder_exception msg buffer =
     buffer\<lparr>err := Some (DecoderException msg (total_read buffer))\<rparr>"

definition RAISE_DECODER_EXCEPTION :: "string \<Rightarrow> decoder_buffer \<Rightarrow> 'a result" where
  "RAISE_DECODER_EXCEPTION msg buffer = Bail (set_decoder_exception msg buffer)"

datatype py_input = BufferObject "byte list" | CallableObject "call_result list" | OtherObject

text \<open>
  \<open>_bjdata_decoder_buffer_create\<close>: \<open>calloc\<close> zeroes every field. The last
  three arguments are the interpreter's state at the call.
\<close>

definition zero_buffer :: "decoder_prefs \<Rightarrow> (string \<Rightarrow> pyerr + pyobject) \<Rightarrow> nat \<Rightarrow> decoder_buffer" where
  "zero_buffer p dec depth =
     \<lparr>input = [], seek = None, read_func = READ_FIXED, view = [], view_set = False, pos = 0,
      total_read = 0, prefs = p, err = None, trace = [], PyDec_Type = dec,
      recursion_left = depth\<rparr>"

definition bjdata_decoder_buffer_create ::
  "decoder_prefs \<Rightarrow> py_input \<Rightarrow> (int \<Rightarrow> int \<Rightarrow> pyerr option) option \<Rightarrow>
   (string \<Rightarrow> pyerr + pyobject) \<Rightarrow> nat \<Rightarrow> pyerr + decoder_buffer" where
  "bjdata_decoder_buffer_create p inp sk dec depth =
     (case inp of
        BufferObject bs \<Rightarrow>
          Inr ((zero_buffer p dec depth)\<lparr>view := bs, read_func := READ_FIXED, view_set := True\<rparr>)
      | CallableObject script \<Rightarrow>
          (case sk of
             None \<Rightarrow> Inr ((zero_buffer p dec depth)\<lparr>input := script, read_func := READ_CALLABLE\<rparr>)
           | Some s \<Rightarrow>
               Inr ((zero_buffer p dec depth)
                      \<lparr>input := script, read_func := READ_BUFFERED, seek := Some s\<rparr>))
      | OtherObject \<Rightarrow>
          Inl (OtherException ''TypeError: Input neither support buffer interface nor is callable''))"

text \<open>
  \<open>_bjdata_decoder_buffer_free\<close>. The argument is \<open>None\<close> for a \<open>NULL\<close> buffer.
  The result is the value returned (\<open>failed\<close>), with the error indicator and the
  trace the call leaves behind. \<open>PyErr_Fetch\<close> clears the indicator before the seek
  callable runs; \<open>PyErr_Restore\<close> overwrites whatever the seek call raised.
\<close>

definition bjdata_decoder_buffer_free ::
  "decoder_buffer option \<Rightarrow> bool \<times> pyerr option \<times> event list" where
  "bjdata_decoder_buffer_free buffer =
     (case buffer of
        None \<Rightarrow> (False, None, [])
      | Some b \<Rightarrow>
          (if view_set b then
             (case seek b of
                Some sk \<Rightarrow>
                  (if int (length (view b)) > pos b then
                     (let fetched = err b;
                          off = pos b - int (length (view b));
                          seek_result = sk off IO_SEEK_CUR;
                          tr = trace b @ [SeekCall off IO_SEEK_CUR]
                      in (case fetched of
                            Some e \<Rightarrow> (False, Some e, tr @ [ViewRelease])
                          | None \<Rightarrow>
                              (case seek_result of
                                 Some e' \<Rightarrow> (True, Some e', tr @ [ViewRelease])
                               | None \<Rightarrow> (False, None, tr @ [ViewRelease]))))
                   else (False, err b, trace b @ [ViewRelease]))
              | None \<Rightarrow> (False, err b, trace b @ [ViewRelease]))
           else (False, err b, trace b)))"

subsection \<open>The three read functions\<close>

text \<open>
  A read function takes the buffer and \<open>*len\<close> and returns the chunk (\<open>None\<close> for
  \<open>NULL\<close>), the updated \<open>*len\<close> and the buffer. The destination argument of the C
  functions only says where the bytes are copied and is left out.
\<close>

definition decoder_buffer_read_fixed ::
  "decoder_buffer \<Rightarrow> int \<Rightarrow> byte list option \<times> int \<times> decoder_buffer" where
  "decoder_buffer_read_fixed buffer len =
     (if len = 0 then (None, len, buffer)
      else if total_read buffer < int (length (view buffer)) then
        (let len' = min len (int (length (view buffer)) - total_read buffer);
             old_pos = total_read buffer
         in (Some (take (nat len') (drop (nat old_pos) (view buffer))), len',
             buffer\<lparr>total_read := total_read buffer + len'\<rparr>))
      else (None, 0, buffer))"

text \<open>\<open>PyObject_CallFunction(buffer->input, "n", n)\<close>: the next entry of the script.\<close>

definition call_input :: "decoder_buffer \<Rightarrow> int \<Rightarrow> call_result \<times> decoder_buffer" where
  "call_input buffer n =
     (case input buffer of
        [] \<Rightarrow> (Returns [], buffer\<lparr>trace := trace buffer @ [ReadCall n]\<rparr>)
      | r # rs \<Rightarrow> (r, buffer\<lparr>input := rs, trace := trace buffer @ [ReadCall n]\<rparr>))"

definition decoder_buffer_read_callable ::
  "decoder_buffer \<Rightarrow> int \<Rightarrow> byte list option \<times> int \<times> decoder_buffer" where
  "decoder_buffer_read_callable buffer len =
     (if len = 0 then (None, len, buffer)
      else
        (let b1 = (if view_set buffer
                   then buffer\<lparr>view_set := False, trace := trace buffer @ [ViewRelease]\<rparr>
                   else buffer)
         in (case call_input b1 len of
               (Raises e, b2) \<Rightarrow> (None, 1, b2\<lparr>err := Some e\<rparr>)
             | (NoBuffer, b2) \<Rightarrow>
                 (None, 1, b2\<lparr>err := Some (OtherException ''TypeError'')\<rparr>)
             | (Returns bs, b2) \<Rightarrow>
                 (let b3 = b2\<lparr>view := bs, view_set := True\<rparr>
                  in if length bs = 0 then (None, 0, b3)
                     else (Some bs, int (length bs),
                           b3\<lparr>total_read := total_read b3 + int (length bs)\<rparr>)))))"

definition decoder_buffer_read_buffered ::
  "decoder_buffer \<Rightarrow> int \<Rightarrow> byte list option \<times> int \<times> decoder_buffer" where
  "decoder_buffer_read_buffered buffer len =
     (if len = 0 then (None, len, buffer)
      else if \<not> view_set buffer \<or> len > int (length (view buffer)) - pos buffer then
        (let remaining_old =
               (if view_set buffer then int (length (view buffer)) - pos buffer else 0);
             old_part =
               (if view_set buffer \<and> remaining_old > 0
                then drop (nat (pos buffer)) (view buffer) else []);
             b1 = (if view_set buffer then
                     (if remaining_old > 0
                      then buffer\<lparr>total_read := total_read buffer + remaining_old\<rparr>
                      else buffer)
                     \<lparr>view_set := False, pos := 0, trace := trace buffer @ [ViewRelease]\<rparr>
                   else buffer)
         in (case call_input b1 (max BUFFER_FP_SIZE (len - remaining_old)) of
               (Raises e, b2) \<Rightarrow> (None, 1, b2\<lparr>err := Some e\<rparr>)
             | (NoBuffer, b2) \<Rightarrow>
                 (None, 1, b2\<lparr>err := Some (OtherException ''TypeError'')\<rparr>)
             | (Returns bs, b2) \<Rightarrow>
                 (let b3 = b2\<lparr>view := bs, view_set := True\<rparr>
                  in if remaining_old = 0 \<and> length bs = 0 then (None, 0, b3)
                     else
                       (let len' = min len ((int (length bs) - pos b3) + remaining_old);
                            p = len' - remaining_old
                        in (Some (old_part @ take (nat p) bs), len',
                            b3\<lparr>pos := p, total_read := total_read b3 + p\<rparr>)))))
      else
        (let old_pos = pos buffer
         in (Some (take (nat len) (drop (nat old_pos) (view buffer))), len,
             buffer\<lparr>pos := pos buffer + len, total_read := total_read buffer + len\<rparr>)))"

definition READ_VIA_FUNC ::
  "decoder_buffer \<Rightarrow> int \<Rightarrow> byte list option \<times> int \<times> decoder_buffer" where
  "READ_VIA_FUNC buffer len =
     (case read_func buffer of
        READ_FIXED \<Rightarrow> decoder_buffer_read_fixed buffer len
      | READ_CALLABLE \<Rightarrow> decoder_buffer_read_callable buffer len
      | READ_BUFFERED \<Rightarrow> decoder_buffer_read_buffered buffer len)"

subsection \<open>The read macros\<close>

text \<open>
  \<open>ACTION_READ_ERROR\<close>: \<open>stmt\<close> is what the read function returned, \<open>len\<close> the
  length asked for. A \<open>NULL\<close> chunk with \<open>read > 0\<close> is an error of the callable
  (its exception is set already); with \<open>len = 0\<close> nothing is read and nothing raised.
\<close>

definition ACTION_READ_ERROR ::
  "byte list option \<times> int \<times> decoder_buffer \<Rightarrow> int \<Rightarrow> string \<Rightarrow> byte list result" where
  "ACTION_READ_ERROR stmt len item_str =
     (case stmt of
        (None, read, buffer) \<Rightarrow>
          (if read > 0 then Bail buffer
           else if len > 0 \<or> read < len
           then RAISE_DECODER_EXCEPTION (''Insufficient input ('' @ item_str @ '')'') buffer
           else Ret [] buffer)
      | (Some chunk, read, buffer) \<Rightarrow>
          (if read < len
           then RAISE_DECODER_EXCEPTION
                  (''Insufficient (partial) input ('' @ item_str @ '')'') buffer
           else Ret chunk buffer))"

text \<open>
  \<open>READ_OR_BAIL\<close>, \<open>READ_OR_BAIL_CAST\<close> and \<open>READ_INTO_OR_BAIL\<close> differ in the
  destination and the pointer type only.
\<close>

definition READ_OR_BAIL :: "int \<Rightarrow> string \<Rightarrow> decoder_buffer \<Rightarrow> byte list result" where
  "READ_OR_BAIL len item_str buffer = ACTION_READ_ERROR (READ_VIA_FUNC buffer len) len item_str"

text \<open>
  \<open>READ_CHAR_OR_BAIL\<close> takes \<open>tmp[0]\<close>. The chunk of a one-byte read that
  succeeded is empty only when \<open>total_read\<close> or \<open>pos\<close> lies outside the view,
  which no buffer made by \<open>bjdata_decoder_buffer_create\<close> reaches; the model bails
  there.
\<close>

definition READ_CHAR_OR_BAIL :: "string \<Rightarrow> decoder_buffer \<Rightarrow> byte result" where
  "READ_CHAR_OR_BAIL item_str buffer =
     (case READ_OR_BAIL 1 item_str buffer of
        Ret tmp b \<Rightarrow> (case tmp of c # _ \<Rightarrow> Ret c b | [] \<Rightarrow> Bail b)
      | Bail b \<Rightarrow> Bail b)"

subsection \<open>Unicode\<close>

text \<open>
  Modelled from the spec: \<open>PyUnicode_FromStringAndSize\<close> belongs to CPython. It
  decodes strict UTF-8 (no overlong forms, no surrogates, nothing above U+10FFFF); the
  string object is kept as its UTF-8 bytes.
\<close>

definition utf8_cont :: "nat \<Rightarrow> bool" where
  "utf8_cont b = (0x80 \<le> b \<and> b \<le> 0xBF)"

fun utf8_valid :: "nat list \<Rightarrow> bool" where
  "utf8_valid [] = True"
| "utf8_valid (a # bs) =
     (if a < 0x80 then utf8_valid bs
      else if 0xC2 \<le> a \<and> a \<le> 0xDF then
        (case bs of b # r \<Rightarrow> utf8_cont b \<and> utf8_valid r | _ \<Rightarrow> False)
      else if 0xE0 \<le> a \<and> a \<le> 0xEF then
        (case bs of
           b # c # r \<Rightarrow>
             (if a = 0xE0 then 0xA0 \<le> b \<and> b \<le> 0xBF
              else if a = 0xED then 0x80 \<le> b \<and> b \<le> 0x9F
              else utf8_cont b) \<and> utf8_cont c \<and> utf8_valid r
         | _ \<Rightarrow> False)
      else if 0xF0 \<le> a \<and> a \<le> 0xF4 then
        (case bs of
           b # c # d # r \<Rightarrow>
             (if a = 0xF0 then 0x90 \<le> b \<and> b \<le> 0xBF
              else if a = 0xF4 then 0x80 \<le> b \<and> b \<le> 0x8F
              else utf8_cont b) \<and> utf8_cont c \<and> utf8_cont d \<and> utf8_valid r
         | _ \<Rightarrow> False)
      else False)"

definition PyUnicode_FromStringAndSize :: "byte list \<Rightarrow> int \<Rightarrow> pyobject option" where
  "PyUnicode_FromStringAndSize raw len =
     (let s = take (nat len) raw
      in if utf8_valid (map of_char s) then Some (PyUnicode s) else None)"

definition DECODE_UNICODE_OR_BAIL ::
  "byte list \<Rightarrow> int \<Rightarrow> string \<Rightarrow> decoder_buffer \<Rightarrow> pyobject result" where
  "DECODE_UNICODE_OR_BAIL raw len item_str buffer =
     (case PyUnicode_FromStringAndSize raw len of
        None \<Rightarrow> RAISE_DECODER_EXCEPTION (''Failed to decode utf8: '' @ item_str) buffer
      | Some obj \<Rightarrow> Ret obj buffer)"

subsection \<open>Integers\<close>

text \<open>
  The accumulator \<open>value\<close> is a 64-bit word. With \<open>islittle\<close> the bytes are
  stored into the accumulator's memory, lowest address first (\<open>buf[i] = *raw++\<close>);
  otherwise they are shifted in (\<open>value = (value << 8) | *raw++\<close>).
\<close>

definition byte_word :: "byte \<Rightarrow> 64 word" where
  "byte_word c = of_nat (of_char c)"

definition store_byte :: "64 word \<Rightarrow> nat \<Rightarrow> byte \<Rightarrow> 64 word" where
  "store_byte v i c = (v AND NOT (push_bit (8 * i) 0xFF)) OR push_bit (8 * i) (byte_word c)"

fun little_loop :: "64 word \<Rightarrow> nat \<Rightarrow> byte list \<Rightarrow> 64 word" where
  "little_loop v i [] = v"
| "little_loop v i (c # raw) = little_loop (store_byte v i c) (Suc i) raw"

fun big_loop :: "64 word \<Rightarrow> byte list \<Rightarrow> 64 word" where
  "big_loop v [] = v"
| "big_loop v (c # raw) = big_loop (push_bit 8 v OR byte_word c) raw"

definition assemble :: "bool \<Rightarrow> int \<Rightarrow> byte list \<Rightarrow> 64 word" where
  "assemble little sz raw =
     (if little then little_loop 0 0 (take (nat sz) raw) else big_loop 0 (take (nat sz) raw))"

text \<open>\<open>value |= -(value & (1L << ((8 * size) - 1)))\<close>\<close>

definition extend_sign :: "int \<Rightarrow> 64 word \<Rightarrow> 64 word" where
  "extend_sign sz v = v OR (- (v AND push_bit (nat (8 * sz - 1)) 1))"

definition decode_int8 :: "decoder_buffer \<Rightarrow> pyobject result" where
  "decode_int8 buffer =
     (case READ_CHAR_OR_BAIL ''int8'' buffer of
        Ret v b \<Rightarrow> Ret (PyLong (sint (of_nat (of_char v) :: 8 word))) b
      | Bail b \<Rightarrow> Bail b)"

definition decode_uint8 :: "decoder_buffer \<Rightarrow> pyobject result" where
  "decode_uint8 buffer =
     (case READ_CHAR_OR_BAIL ''uint8'' buffer of
        Ret v b \<Rightarrow> Ret (PyLong (uint (of_nat (of_char v) :: 8 word))) b
      | Bail b \<Rightarrow> Bail b)"

definition decode_uint16_32 :: "decoder_buffer \<Rightarrow> int \<Rightarrow> pyobject result" where
  "decode_uint16_32 buffer sz =
     (case READ_OR_BAIL sz ''uint16/32'' buffer of
        Ret raw b \<Rightarrow> Ret (PyLong (uint (assemble (islittle (prefs b)) sz raw))) b
      | Bail b \<Rightarrow> Bail b)"

definition decode_int16_32 :: "decoder_buffer \<Rightarrow> int \<Rightarrow> pyobject result" where
  "decode_int16_32 buffer sz =
     (case READ_OR_BAIL sz ''int16/32'' buffer of
        Ret raw b \<Rightarrow>
          Ret (PyLong (sint (extend_sign sz (assemble (islittle (prefs b)) sz raw)))) b
      | Bail b \<Rightarrow> Bail b)"

definition decode_uint64 :: "decoder_buffer \<Rightarrow> pyobject result" where
  "decode_uint64 buffer =
     (case READ_OR_BAIL 8 ''uint64'' buffer of
        Ret raw b \<Rightarrow> Ret (PyLong (uint (assemble (islittle (prefs b)) 8 raw))) b
      | Bail b \<Rightarrow> Bail b)"

text \<open>\<open>SIZEOF_LONG_LONG > 8\<close> is false: no sign extension is needed.\<close>

definition decode_int64 :: "decoder_buffer \<Rightarrow> pyobject result" where
  "decode_int64 buffer =
     (case READ_OR_BAIL 8 ''int64'' buffer of
        Ret raw b \<Rightarrow> Ret (PyLong (sint (assemble (islittle (prefs b)) 8 raw))) b
      | Bail b \<Rightarrow> Bail b)"

text \<open>
  \<open>PyLong_AsLongLong\<close>: a value outside \<open>long long\<close> sets \<open>OverflowError\<close> and
  gives \<open>-1\<close>.
\<close>

definition PyLong_AsLongLong :: "pyobject \<Rightarrow> decoder_buffer \<Rightarrow> int \<times> decoder_buffer" where
  "PyLong_AsLongLong obj buffer =
     (case obj of
        PyLong v \<Rightarrow>
          (if - (2 ^ 63) \<le> v \<and> v < 2 ^ 63 then (v, buffer)
           else (- 1, buffer\<lparr>err := Some (OtherException ''OverflowError'')\<rparr>))
      | _ \<Rightarrow> (- 1, buffer\<lparr>err := Some (OtherException ''TypeError'')\<rparr>))"

text \<open>The \<open>switch\<close> of \<open>_decode_int_non_negative\<close> over the integer markers.\<close>

definition decode_int_switch :: "byte \<Rightarrow> decoder_buffer \<Rightarrow> pyobject result" where
  "decode_int_switch marker b1 =
     (if marker = TYPE_UINT8 then decode_uint8 b1
      else if marker = TYPE_INT8 then decode_int8 b1
      else if marker = TYPE_UINT16 then decode_uint16_32 b1 2
      else if marker = TYPE_INT16 then decode_int16_32 b1 2
      else if marker = TYPE_UINT32 then decode_uint16_32 b1 4
      else if marker = TYPE_INT32 then decode_int16_32 b1 4
      else if marker = TYPE_UINT64 then decode_uint64 b1
      else if marker = TYPE_INT64 then decode_int64 b1
      else RAISE_DECODER_EXCEPTION ''Integer marker expected'' b1)"

text \<open>
  \<open>_decode_int_non_negative\<close> returns a negative number on error; the model returns
  \<open>Bail\<close> there. \<open>PyErr_Occurred\<close> also sees an exception that was pending before
  the call.
\<close>

definition decode_int_non_negative :: "decoder_buffer \<Rightarrow> byte option \<Rightarrow> int result" where
  "decode_int_non_negative buffer given_marker =
     (case (case given_marker of
              None \<Rightarrow> READ_CHAR_OR_BAIL ''Length marker'' buffer
            | Some m \<Rightarrow> Ret m buffer) of
        Ret marker b1 \<Rightarrow>
          (case decode_int_switch marker b1 of
             Ret int_obj b2 \<Rightarrow>
               (case PyLong_AsLongLong int_obj b2 of
                  (v, b3) \<Rightarrow>
                    (if err b3 \<noteq> None then Bail b3
                     else if v < 0
                     then RAISE_DECODER_EXCEPTION ''Negative count/length unexpected'' b3
                     else Ret v b3))
           | Bail b2 \<Rightarrow> Bail b2)
      | Bail b1 \<Rightarrow> Bail b1)"

subsection \<open>Floats, decimals, characters and strings\<close>

fun be_word :: "'a::len word \<Rightarrow> byte list \<Rightarrow> 'a word" where
  "be_word v [] = v"
| "be_word v (c # raw) = be_word (push_bit 8 v OR of_nat (of_char c)) raw"

definition PyFloat_Unpack4 :: "byte list \<Rightarrow> bool \<Rightarrow> double" where
  "PyFloat_Unpack4 raw le = Binary32 (be_word 0 (if le then rev (take 4 raw) else take 4 raw))"

definition PyFloat_Unpack8 :: "byte list \<Rightarrow> bool \<Rightarrow> double" where
  "PyFloat_Unpack8 raw le = Binary64 (be_word 0 (if le then rev (take 8 raw) else take 8 raw))"

text \<open>The doubles that compare equal to \<open>-1.0\<close>.\<close>

definition is_minus_one :: "double \<Rightarrow> bool" where
  "is_minus_one d = (d = Binary32 0xBF800000 \<or> d = Binary64 0xBFF0000000000000)"

definition decode_float32 :: "decoder_buffer \<Rightarrow> pyobject result" where
  "decode_float32 buffer =
     (case READ_OR_BAIL 4 ''float32'' buffer of
        Ret raw b \<Rightarrow>
          (let v = PyFloat_Unpack4 raw (islittle (prefs b))
           in if is_minus_one v \<and> err b \<noteq> None then Bail b else Ret (PyFloat v) b)
      | Bail b \<Rightarrow> Bail b)"

definition decode_float64 :: "decoder_buffer \<Rightarrow> pyobject result" where
  "decode_float64 buffer =
     (case READ_OR_BAIL 8 ''float64'' buffer of
        Ret raw b \<Rightarrow>
          (let v = PyFloat_Unpack8 raw (islittle (prefs b))
           in if is_minus_one v \<and> err b \<noteq> None then Bail b else Ret (PyFloat v) b)
      | Bail b \<Rightarrow> Bail b)"

definition decode_high_prec :: "decoder_buffer \<Rightarrow> pyobject result" where
  "decode_high_prec buffer =
     (case decode_int_non_negative buffer None of
        Ret len b1 \<Rightarrow>
          (case READ_OR_BAIL len ''highprec'' b1 of
             Ret raw b2 \<Rightarrow>
               (case DECODE_UNICODE_OR_BAIL raw len ''highprec'' b2 of
                  Ret num_str b3 \<Rightarrow>
                    (case num_str of
                       PyUnicode s \<Rightarrow>
                         (case PyDec_Type b3 s of
                            Inl e \<Rightarrow> Bail (b3\<lparr>err := Some e\<rparr>)
                          | Inr decimal \<Rightarrow> Ret decimal b3)
                     | _ \<Rightarrow> Bail (b3\<lparr>err := Some (OtherException ''TypeError'')\<rparr>))
                | Bail b3 \<Rightarrow> Bail b3)
           | Bail b2 \<Rightarrow> Bail b2)
      | Bail b1 \<Rightarrow> Bail b1)"

definition decode_char :: "decoder_buffer \<Rightarrow> pyobject result" where
  "decode_char buffer =
     (case READ_CHAR_OR_BAIL ''char'' buffer of
        Ret v b \<Rightarrow> DECODE_UNICODE_OR_BAIL [v] 1 ''char'' b
      | Bail b \<Rightarrow> Bail b)"

definition decode_string :: "decoder_buffer \<Rightarrow> pyobject result" where
  "decode_string buffer =
     (case decode_int_non_negative buffer None of
        Ret len b1 \<Rightarrow>
          (if len > 0 then
             (case READ_OR_BAIL len ''string'' b1 of
                Ret raw b2 \<Rightarrow> DECODE_UNICODE_OR_BAIL raw len ''string'' b2
              | Bail b2 \<Rightarrow> Bail b2)
           else Ret (PyUnicode []) b1)
      | Bail b1 \<Rightarrow> Bail b1)"

subsection \<open>Container headers\<close>

record container_params =
  p_marker :: byte
  p_counting :: bool
  p_count :: int
  p_type :: byte
  p_invalid :: bool

text \<open>\<open>_container_params_t params={0}\<close>\<close>

definition params0 :: container_params where
  "params0 =
     \<lparr>p_marker = TYPE_NONE, p_counting = False, p_count = 0, p_type = TYPE_NONE,
      p_invalid = False\<rparr>"

text \<open>The markers the \<open>switch\<close> after \<open>$\<close> accepts as a container type.\<close>

definition is_container_type :: "byte \<Rightarrow> bool" where
  "is_container_type m =
     (m = TYPE_NULL \<or> m = TYPE_BOOL_TRUE \<or> m = TYPE_BOOL_FALSE \<or> m = TYPE_CHAR \<or>
      m = TYPE_STRING \<or> m = TYPE_INT8 \<or> m = TYPE_UINT8 \<or> m = TYPE_INT16 \<or>
      m = TYPE_INT32 \<or> m = TYPE_INT64 \<or> m = TYPE_FLOAT32 \<or> m = TYPE_FLOAT64 \<or>
      m = TYPE_UINT16 \<or> m = TYPE_UINT32 \<or> m = TYPE_UINT64 \<or> m = TYPE_FLOAT16 \<or>
      m = TYPE_HIGH_PREC \<or> m = ARRAY_START \<or> m = OBJECT_START)"

text \<open>
  \<open>_get_container_params\<close> returns its struct on every path; \<open>goto bail\<close> sets
  \<open>invalid\<close> and returns the fields as they are by then. The function is modelled in
  parts. The first part is the optional global type: it returns the params, the marker
  read last and the buffer.
\<close>

definition container_type_prefix ::
  "decoder_buffer \<Rightarrow> container_params \<times> byte \<times> decoder_buffer" where
  "container_type_prefix buffer =
     (case READ_CHAR_OR_BAIL ''container type, count or 1st key/value type'' buffer of
        Bail b1 \<Rightarrow> (params0\<lparr>p_invalid := True\<rparr>, TYPE_NONE, b1)
      | Ret m b1 \<Rightarrow>
          (if m = CONTAINER_TYPE then
             (case READ_CHAR_OR_BAIL ''container type'' b1 of
                Bail b2 \<Rightarrow> (params0\<lparr>p_invalid := True\<rparr>, m, b2)
              | Ret t b2 \<Rightarrow>
                  (if is_container_type t then
                     (case READ_CHAR_OR_BAIL ''container count or 1st key/value type'' b2 of
                        Bail b3 \<Rightarrow> (params0\<lparr>p_type := t, p_invalid := True\<rparr>, t, b3)
                      | Ret m' b3 \<Rightarrow> (params0\<lparr>p_type := t\<rparr>, m', b3))
                   else (params0\<lparr>p_invalid := True\<rparr>, t,
                         set_decoder_exception ''Invalid container type'' b2)))
           else (params0\<lparr>p_type := TYPE_NONE\<rparr>, m, b1)))"

text \<open>
  The dimensions of an optimized N-D header whose inner header is counted: the
  \<open>for\<close> loop runs \<open>dims.count\<close> times. The result says whether the loop bailed,
  and gives the product, the dimensions and the buffer.
\<close>

fun nd_counted_loop ::
  "nat \<Rightarrow> byte \<Rightarrow> int \<Rightarrow> int list \<Rightarrow> decoder_buffer \<Rightarrow> bool \<times> int \<times> int list \<times> decoder_buffer" where
  "nd_counted_loop 0 t cnt ds b = (False, cnt, ds, b)"
| "nd_counted_loop (Suc n) t cnt ds b =
     (case decode_int_non_negative b (Some t) of
        Bail b1 \<Rightarrow> (True, cnt, ds, b1)
      | Ret len b1 \<Rightarrow> nd_counted_loop n t (cnt * len) (ds @ [len]) b1)"

text \<open>The dimensions when the inner header is not counted: until \<open>]\<close>.\<close>

fun nd_unsized_loop ::
  "nat \<Rightarrow> byte \<Rightarrow> int \<Rightarrow> int list \<Rightarrow> decoder_buffer \<Rightarrow>
   (bool \<times> int \<times> int list \<times> decoder_buffer) option" where
  "nd_unsized_loop 0 m cnt ds b = None"
| "nd_unsized_loop (Suc n) m cnt ds b =
     (if m \<noteq> ARRAY_END then
        (case decode_int_non_negative b (Some m) of
           Bail b1 \<Rightarrow> Some (True, cnt, ds, b1)
         | Ret len b1 \<Rightarrow>
             (case READ_CHAR_OR_BAIL ''Length marker'' b1 of
                Bail b2 \<Rightarrow> Some (True, cnt * len, ds @ [len], b2)
              | Ret m' b2 \<Rightarrow> nd_unsized_loop n m' (cnt * len) (ds @ [len]) b2))
      else Some (False, cnt, ds, b))"

text \<open>
  After the count is known: the read-ahead of the first marker, and the end of the
  function.
\<close>

definition first_marker ::
  "container_params \<Rightarrow> bool \<Rightarrow> decoder_buffer \<Rightarrow> container_params \<times> decoder_buffer" where
  "first_marker params in_mapping b =
     (if p_count params > 0 \<and> (in_mapping \<or> p_type params = TYPE_NONE) then
        (case READ_CHAR_OR_BAIL ''1st key/value type'' b of
           Bail b1 \<Rightarrow> (params\<lparr>p_invalid := True\<rparr>, b1)
         | Ret m b1 \<Rightarrow> (params\<lparr>p_marker := m, p_invalid := False\<rparr>, b1))
      else (params\<lparr>p_marker := p_type params, p_invalid := False\<rparr>, b))"

text \<open>
  The arguments are the fuel, the buffer, \<open>in_mapping\<close>, and whether the out-parameters
  \<open>nd_ndim\<close> and \<open>nd_dims\<close> are given. The result is the struct, \<open>*nd_ndim\<close>,
  \<open>*nd_dims\<close> and the buffer. The inner call for the dimensions' own header does not
  look at \<open>dims.invalid\<close>, as in the source; \<open>*nd_ndim = dims.count\<close> converts to
  \<open>unsigned int\<close>. The product of the dimensions is taken in \<open>int\<close>: its overflow is
  undefined in C.
\<close>

fun get_container_params ::
  "nat \<Rightarrow> decoder_buffer \<Rightarrow> bool \<Rightarrow> bool \<Rightarrow>
   (container_params \<times> nat \<times> int list \<times> decoder_buffer) option" where
  "get_container_params 0 buffer in_mapping nd = None"
| "get_container_params (Suc fuel) buffer in_mapping nd =
     (case container_type_prefix buffer of
        (params, marker, b1) \<Rightarrow>
          (if p_invalid params then Some (params, 0, [], b1)
           else if marker = CONTAINER_COUNT then
             (case READ_CHAR_OR_BAIL
                     ''container count marker or optimized ND-array dimension array marker'' b1 of
                Bail b2 \<Rightarrow> Some (params\<lparr>p_counting := True, p_invalid := True\<rparr>, 0, [], b2)
              | Ret marker2 b2 \<Rightarrow>
                  (if marker2 = ARRAY_START \<and> nd then
                     (case get_container_params fuel b2 False False of
                        None \<Rightarrow> None
                      | Some (dims, _, _, b3) \<Rightarrow>
                          (if p_counting dims then
                             (case nd_counted_loop (nat (p_count dims)) (p_type dims) 1 [] b3 of
                                (bailed, cnt, ds, b4) \<Rightarrow>
                                  (if bailed
                                   then Some (params\<lparr>p_counting := True, p_count := cnt,
                                                p_invalid := True\<rparr>,
                                              nat (p_count dims mod 2 ^ 32), ds, b4)
                                   else
                                     (case first_marker
                                             (params\<lparr>p_counting := True, p_count := cnt\<rparr>)
                                             in_mapping b4 of
                                        (params', b5) \<Rightarrow>
                                          Some (params', nat (p_count dims mod 2 ^ 32), ds, b5))))
                           else
                             (case nd_unsized_loop fuel (p_marker dims) 1 [] b3 of
                                None \<Rightarrow> None
                              | Some (bailed, cnt, ds, b4) \<Rightarrow>
                                  (if bailed
                                   then Some (params\<lparr>p_counting := True, p_count := cnt,
                                                p_invalid := True\<rparr>,
                                              length ds, ds, b4)
                                   else
                                     (case first_marker
                                             (params\<lparr>p_counting := True, p_count := cnt\<rparr>)
                                             in_mapping b4 of
                                        (params', b5) \<Rightarrow> Some (params', length ds, ds, b5))))))
                   else
                     (case decode_int_non_negative b2 (Some marker2) of
                        Bail b3 \<Rightarrow>
                          Some (params\<lparr>p_counting := True, p_count := - 1, p_invalid := True\<rparr>,
                                0, [], b3)
                      | Ret n b3 \<Rightarrow>
                          (case first_marker (params\<lparr>p_counting := True, p_count := n\<rparr>)
                                  in_mapping b3 of
                             (params', b4) \<Rightarrow> Some (params', 0, [], b4)))))
           else if p_type params = TYPE_NONE then
             Some (params\<lparr>p_count := 1, p_counting := False, p_marker := marker,
                     p_invalid := False\<rparr>, 0, [], b1)
           else
             Some (params\<lparr>p_invalid := True\<rparr>, 0, [],
                   set_decoder_exception ''Container type without count'' b1)))"

definition is_no_data_type :: "byte \<Rightarrow> bool" where
  "is_no_data_type t = (t = TYPE_NULL \<or> t = TYPE_BOOL_TRUE \<or> t = TYPE_BOOL_FALSE)"

definition is_fixed_len_type :: "byte \<Rightarrow> bool" where
  "is_fixed_len_type t =
     (t = TYPE_INT8 \<or> t = TYPE_UINT8 \<or> t = TYPE_INT16 \<or> t = TYPE_UINT16 \<or>
      t = TYPE_INT32 \<or> t = TYPE_UINT32 \<or> t = TYPE_INT64 \<or> t = TYPE_UINT64 \<or>
      t = TYPE_CHAR \<or> t = TYPE_FLOAT16 \<or> t = TYPE_FLOAT32 \<or> t = TYPE_FLOAT64)"

text \<open>
  \<open>_get_type_info\<close>: the numpy type and \<open>*bytelen\<close>; the default case sets a
  \<open>RuntimeError\<close>.
\<close>

definition get_type_info :: "byte \<Rightarrow> decoder_buffer \<Rightarrow> npy_type \<times> int \<times> decoder_buffer" where
  "get_type_info t b =
     (if t = TYPE_FLOAT16 then (NPY_HALF, 2, b)
      else if t = TYPE_FLOAT32 then (NPY_FLOAT, 4, b)
      else if t = TYPE_FLOAT64 then (NPY_DOUBLE, 8, b)
      else if t = TYPE_INT8 then (NPY_BYTE, 1, b)
      else if t = TYPE_UINT8 then (NPY_UBYTE, 1, b)
      else if t = TYPE_INT16 then (NPY_SHORT, 2, b)
      else if t = TYPE_UINT16 then (NPY_USHORT, 2, b)
      else if t = TYPE_INT32 then (NPY_INT, 4, b)
      else if t = TYPE_UINT32 then (NPY_UINT, 4, b)
      else if t = TYPE_INT64 then (NPY_LONGLONG, 8, b)
      else if t = TYPE_UINT64 then (NPY_ULONGLONG, 8, b)
      else if t = TYPE_CHAR then (NPY_STRING, 1, b)
      else (NPY_USERDEF, 0,
            b\<lparr>err := Some (OtherException ''RuntimeError: Internal error - _get_type_info'')\<rparr>))"

definition no_data_type :: "byte \<Rightarrow> decoder_buffer \<Rightarrow> pyobject result" where
  "no_data_type t b =
     (if t = TYPE_NULL then Ret PyNone b
      else if t = TYPE_BOOL_TRUE then Ret (PyBool True) b
      else if t = TYPE_BOOL_FALSE then Ret (PyBool False) b
      else Bail (b\<lparr>err := Some (OtherException ''RuntimeError: Internal error - _no_data_type'')\<rparr>))"

subsection \<open>Arrays\<close>

text \<open>
  The decoder of nested values is a parameter \<open>dv\<close> of the container decoders;
  \<open>bjdata_decode_value\<close> below ties the knot. Each turn of a loop that reads
  markers takes one unit of fuel.
\<close>

type_synonym value_decoder = "decoder_buffer \<Rightarrow> byte option \<Rightarrow> pyobject result option"

text \<open>
  The loop of a counted array without a fast path. \<open>acc\<close> holds the slots of the list
  filled so far.
\<close>

fun array_counted_loop ::
  "value_decoder \<Rightarrow> nat \<Rightarrow> decoder_buffer \<Rightarrow> byte \<Rightarrow> int \<Rightarrow> byte \<Rightarrow> pyobject list \<Rightarrow>
   pyobject result option" where
  "array_counted_loop dv 0 b marker cnt t acc = None"
| "array_counted_loop dv (Suc n) b marker cnt t acc =
     (if cnt > 0 then
        (if marker = TYPE_NOOP then
           (case READ_CHAR_OR_BAIL ''array value type marker (sized, after no-op)'' b of
              Bail b1 \<Rightarrow> Some (Bail b1)
            | Ret m b1 \<Rightarrow> array_counted_loop dv n b1 m cnt t acc)
         else
           (case dv b (Some marker) of
              None \<Rightarrow> None
            | Some (Bail b1) \<Rightarrow> Some (Bail b1)
            | Some (Ret v b1) \<Rightarrow>
                (if cnt - 1 > 0 \<and> t = TYPE_NONE then
                   (case READ_CHAR_OR_BAIL ''array value type marker (sized)'' b1 of
                      Bail b2 \<Rightarrow> Some (Bail b2)
                    | Ret m b2 \<Rightarrow> array_counted_loop dv n b2 m (cnt - 1) t (acc @ [v]))
                 else array_counted_loop dv n b1 marker (cnt - 1) t (acc @ [v]))))
      else Some (Ret (PyList acc) b))"

fun array_unsized_loop ::
  "value_decoder \<Rightarrow> nat \<Rightarrow> decoder_buffer \<Rightarrow> byte \<Rightarrow> byte \<Rightarrow> pyobject list \<Rightarrow>
   pyobject result option" where
  "array_unsized_loop dv 0 b marker t acc = None"
| "array_unsized_loop dv (Suc n) b marker t acc =
     (if marker \<noteq> ARRAY_END then
        (if marker = TYPE_NOOP then
           (case READ_CHAR_OR_BAIL ''array value type marker (after no-op)'' b of
              Bail b1 \<Rightarrow> Some (Bail b1)
            | Ret m b1 \<Rightarrow> array_unsized_loop dv n b1 m t acc)
         else
           (case dv b (Some marker) of
              None \<Rightarrow> None
            | Some (Bail b1) \<Rightarrow> Some (Bail b1)
            | Some (Ret v b1) \<Rightarrow>
                (if t = TYPE_NONE then
                   (case READ_CHAR_OR_BAIL ''array value type marker'' b1 of
                      Bail b2 \<Rightarrow> Some (Bail b2)
                    | Ret m b2 \<Rightarrow> array_unsized_loop dv n b2 m t (acc @ [v]))
                 else array_unsized_loop dv n b1 marker t (acc @ [v]))))
      else Some (Ret (PyList acc) b))"

text \<open>
  A packed array: \<open>PyArray_SimpleNew\<close> and the read into its storage.
  \<open>PyArray_SimpleNew\<close> is taken to fail exactly for the type \<open>NPY_USERDEF\<close>. The
  shape is \<open>dims[0..ndims-1]\<close>; when the inner header was invalid the source reads
  \<open>dims\<close> beyond what it wrote, which the model does not follow.
\<close>

definition packed_array ::
  "byte \<Rightarrow> int list \<Rightarrow> int \<Rightarrow> string \<Rightarrow> decoder_buffer \<Rightarrow> pyobject result" where
  "packed_array t shape cnt item_str b =
     (case get_type_info t b of
        (pytype, bytelen, b1) \<Rightarrow>
          (if pytype = NPY_USERDEF
           then Bail (b1\<lparr>err := Some (OtherException ''TypeError: Invalid type number'')\<rparr>)
           else
             (case READ_OR_BAIL (bytelen * cnt) item_str b1 of
                Bail b2 \<Rightarrow> Bail b2
              | Ret chunk b2 \<Rightarrow> Ret (PyArray pytype shape (take (nat (bytelen * cnt)) chunk)) b2)))"

definition decode_array :: "value_decoder \<Rightarrow> nat \<Rightarrow> decoder_buffer \<Rightarrow> pyobject result option" where
  "decode_array dv fuel buffer =
     (case get_container_params fuel buffer False True of
        None \<Rightarrow> None
      | Some (params, ndims, dims, b) \<Rightarrow>
          (if p_invalid params then Some (Bail b)
           else if p_counting params then
             (if p_type params = TYPE_UINT8 \<and> \<not> no_bytes (prefs b) \<and> ndims = 0 then
                (case READ_OR_BAIL (p_count params) ''bytes array'' b of
                   Bail b1 \<Rightarrow> Some (Bail b1)
                 | Ret chunk b1 \<Rightarrow> Some (Ret (PyBytes (take (nat (p_count params)) chunk)) b1))
              else if ndims \<noteq> 0 \<and> p_type params \<noteq> TYPE_NONE then
                Some (packed_array (p_type params) (take ndims dims) (p_count params)
                        ''ND array'' b)
              else if is_no_data_type (p_type params) then
                (case no_data_type (p_type params) b of
                   Bail b1 \<Rightarrow> Some (Bail b1)
                 | Ret v b1 \<Rightarrow> Some (Ret (PyList (replicate (nat (p_count params)) v)) b1))
              else if is_fixed_len_type (p_type params) \<and> p_count params > 0 then
                Some (packed_array (p_type params) [p_count params] (p_count params)
                        ''1D packed array'' b)
              else array_counted_loop dv fuel b (p_marker params) (p_count params)
                     (p_type params) [])
           else array_unsized_loop dv fuel b (p_marker params) (p_type params) []))"

subsection \<open>Objects\<close>

text \<open>
  \<open>_decode_object_key\<close>: a key is a string without the \<open>S\<close> marker. Interning
  changes no value and is left out. The key is returned as its string.
\<close>

definition decode_object_key :: "decoder_buffer \<Rightarrow> byte \<Rightarrow> string result" where
  "decode_object_key buffer marker =
     (case decode_int_non_negative buffer (Some marker) of
        Bail b1 \<Rightarrow> Bail b1
      | Ret len b1 \<Rightarrow>
          (case READ_OR_BAIL len ''string'' b1 of
             Bail b2 \<Rightarrow> Bail b2
           | Ret raw b2 \<Rightarrow>
               (case PyUnicode_FromStringAndSize raw len of
                  Some (PyUnicode key) \<Rightarrow> Ret key b2
                | _ \<Rightarrow> Bail (b2\<lparr>err := Some (OtherException ''UnicodeDecodeError'')\<rparr>))))"

definition DECODE_OBJECT_KEY_OR_RAISE_ENCODER_EXCEPTION ::
  "string \<Rightarrow> decoder_buffer \<Rightarrow> byte \<Rightarrow> string result" where
  "DECODE_OBJECT_KEY_OR_RAISE_ENCODER_EXCEPTION context_str buffer marker =
     (case decode_object_key buffer marker of
        Bail b \<Rightarrow>
          RAISE_DECODER_EXCEPTION (''Failed to decode object key ('' @ context_str @ '')'') b
      | Ret key b \<Rightarrow> Ret key b)"

text \<open>
  \<open>PyDict_SetItem\<close> on a dictionary with string keys: a key that is there already
  keeps its place and takes the new value; a new key goes to the end.
\<close>

definition PyDict_SetItem ::
  "(string \<times> pyobject) list \<Rightarrow> string \<Rightarrow> pyobject \<Rightarrow> (string \<times> pyobject) list" where
  "PyDict_SetItem obj key v = AList.update key v obj"

definition fixed_type_of :: "byte \<Rightarrow> byte option" where
  "fixed_type_of t = (if t = TYPE_NONE then None else Some t)"

text \<open>\<open>_decode_object\<close>, keys only: the loop runs \<open>count\<close> times.\<close>

fun object_no_data_loop ::
  "nat \<Rightarrow> decoder_buffer \<Rightarrow> byte \<Rightarrow> pyobject \<Rightarrow> (string \<times> pyobject) list \<Rightarrow>
   (string \<times> pyobject) list result" where
  "object_no_data_loop 0 b marker v obj = Ret obj b"
| "object_no_data_loop (Suc n) b marker v obj =
     (case DECODE_OBJECT_KEY_OR_RAISE_ENCODER_EXCEPTION ''sized, no data'' b marker of
        Bail b1 \<Rightarrow> Bail b1
      | Ret key b1 \<Rightarrow>
          (if n > 0 then
             (case READ_CHAR_OR_BAIL ''object key length'' b1 of
                Bail b2 \<Rightarrow> Bail b2
              | Ret m b2 \<Rightarrow> object_no_data_loop n b2 m v (PyDict_SetItem obj key v))
           else object_no_data_loop n b1 marker v (PyDict_SetItem obj key v)))"

text \<open>\<open>_decode_object\<close>, the general loop, counted or not.\<close>

fun object_loop ::
  "value_decoder \<Rightarrow> nat \<Rightarrow> decoder_buffer \<Rightarrow> byte \<Rightarrow> int \<Rightarrow> bool \<Rightarrow> byte option \<Rightarrow>
   (string \<times> pyobject) list \<Rightarrow> (string \<times> pyobject) list result option" where
  "object_loop dv 0 b marker cnt counting fixed_type obj = None"
| "object_loop dv (Suc n) b marker cnt counting fixed_type obj =
     (if cnt > 0 \<and> (counting \<or> marker \<noteq> OBJECT_END) then
        (if marker = TYPE_NOOP then
           (case READ_CHAR_OR_BAIL ''object key length'' b of
              Bail b1 \<Rightarrow> Some (Bail b1)
            | Ret m b1 \<Rightarrow> object_loop dv n b1 m cnt counting fixed_type obj)
         else
           (case DECODE_OBJECT_KEY_OR_RAISE_ENCODER_EXCEPTION ''sized/unsized'' b marker of
              Bail b1 \<Rightarrow> Some (Bail b1)
            | Ret key b1 \<Rightarrow>
                (case dv b1 fixed_type of
                   None \<Rightarrow> None
                 | Some (Bail b2) \<Rightarrow> Some (Bail b2)
                 | Some (Ret v b2) \<Rightarrow>
                     (let cnt' = (if counting then cnt - 1 else cnt)
                      in if cnt' > 0 then
                           (case READ_CHAR_OR_BAIL ''object key length'' b2 of
                              Bail b3 \<Rightarrow> Some (Bail b3)
                            | Ret m b3 \<Rightarrow>
                                object_loop dv n b3 m cnt' counting fixed_type
                                  (PyDict_SetItem obj key v))
                         else object_loop dv n b2 marker cnt' counting fixed_type
                                (PyDict_SetItem obj key v)))))
      else Some (Ret obj b))"

text \<open>A call of a user hook: the call is recorded; an exception of the hook is set.\<close>

definition call_hook :: "hook \<Rightarrow> pyobject \<Rightarrow> decoder_buffer \<Rightarrow> pyobject result" where
  "call_hook h arg b =
     (case h arg of
        Inl e \<Rightarrow> Bail (b\<lparr>trace := trace b @ [HookCall arg], err := Some e\<rparr>)
      | Inr r \<Rightarrow> Ret r (b\<lparr>trace := trace b @ [HookCall arg]\<rparr>))"

text \<open>\<open>_decode_object\<close> up to the dictionary, before \<open>object_hook\<close> is looked at.\<close>

definition decode_object_dict ::
  "value_decoder \<Rightarrow> nat \<Rightarrow> decoder_buffer \<Rightarrow> (string \<times> pyobject) list result option" where
  "decode_object_dict dv fuel buffer =
     (case get_container_params fuel buffer True False of
        None \<Rightarrow> None
      | Some (params, _, _, b) \<Rightarrow>
          (if p_invalid params then Some (Bail b)
           else if p_counting params \<and> is_no_data_type (p_type params) then
             (case no_data_type (p_type params) b of
                Bail b1 \<Rightarrow> Some (Bail b1)
              | Ret v b1 \<Rightarrow>
                  Some (object_no_data_loop (nat (p_count params)) b1 (p_marker params) v []))
           else object_loop dv fuel b (p_marker params) (p_count params) (p_counting params)
                  (fixed_type_of (p_type params)) []))"

definition decode_object :: "value_decoder \<Rightarrow> nat \<Rightarrow> decoder_buffer \<Rightarrow> pyobject result option" where
  "decode_object dv fuel buffer =
     (case decode_object_dict dv fuel buffer of
        None \<Rightarrow> None
      | Some (Bail b) \<Rightarrow> Some (Bail b)
      | Some (Ret obj b) \<Rightarrow>
          (case object_hook (prefs b) of
             Some h \<Rightarrow> Some (call_hook h (PyDict obj) b)
           | None \<Rightarrow> Some (Ret (PyDict obj) b)))"

text \<open>\<open>_decode_object_with_pairs_hook\<close>: its three loops build the list of pairs.\<close>

fun pairs_no_data_loop ::
  "nat \<Rightarrow> decoder_buffer \<Rightarrow> byte \<Rightarrow> pyobject \<Rightarrow> (string \<times> pyobject) list \<Rightarrow>
   (string \<times> pyobject) list result" where
  "pairs_no_data_loop 0 b marker v acc = Ret acc b"
| "pairs_no_data_loop (Suc n) b marker v acc =
     (case DECODE_OBJECT_KEY_OR_RAISE_ENCODER_EXCEPTION ''sized, no data'' b marker of
        Bail b1 \<Rightarrow> Bail b1
      | Ret key b1 \<Rightarrow>
          (if n > 0 then
             (case READ_CHAR_OR_BAIL ''object key length'' b1 of
                Bail b2 \<Rightarrow> Bail b2
              | Ret m b2 \<Rightarrow> pairs_no_data_loop n b2 m v (acc @ [(key, v)]))
           else pairs_no_data_loop n b1 marker v (acc @ [(key, v)])))"

fun pairs_counted_loop ::
  "value_decoder \<Rightarrow> nat \<Rightarrow> decoder_buffer \<Rightarrow> byte \<Rightarrow> int \<Rightarrow> byte option \<Rightarrow>
   (string \<times> pyobject) list \<Rightarrow> (string \<times> pyobject) list result option" where
  "pairs_counted_loop dv 0 b marker cnt fixed_type acc = None"
| "pairs_counted_loop dv (Suc n) b marker cnt fixed_type acc =
     (if cnt > 0 then
        (if marker = TYPE_NOOP then
           (case READ_CHAR_OR_BAIL ''object key length (sized, after no-op)'' b of
              Bail b1 \<Rightarrow> Some (Bail b1)
            | Ret m b1 \<Rightarrow> pairs_counted_loop dv n b1 m cnt fixed_type acc)
         else
           (case DECODE_OBJECT_KEY_OR_RAISE_ENCODER_EXCEPTION ''sized'' b marker of
              Bail b1 \<Rightarrow> Some (Bail b1)
            | Ret key b1 \<Rightarrow>
                (case dv b1 fixed_type of
                   None \<Rightarrow> None
                 | Some (Bail b2) \<Rightarrow> Some (Bail b2)
                 | Some (Ret v b2) \<Rightarrow>
                     (if cnt - 1 > 0 then
                        (case READ_CHAR_OR_BAIL ''object key length (sized)'' b2 of
                           Bail b3 \<Rightarrow> Some (Bail b3)
                         | Ret m b3 \<Rightarrow>
                             pairs_counted_loop dv n b3 m (cnt - 1) fixed_type
                               (acc @ [(key, v)]))
                      else pairs_counted_loop dv n b2 marker (cnt - 1) fixed_type
                             (acc @ [(key, v)])))))
      else Some (Ret acc b))"

fun pairs_unsized_loop ::
  "value_decoder \<Rightarrow> nat \<Rightarrow> decoder_buffer \<Rightarrow> byte \<Rightarrow> byte option \<Rightarrow>
   (string \<times> pyobject) list \<Rightarrow> (string \<times> pyobject) list result option" where
  "pairs_unsized_loop dv 0 b marker fixed_type acc = None"
| "pairs_unsized_loop dv (Suc n) b marker fixed_type acc =
     (if marker \<noteq> OBJECT_END then
        (if marker = TYPE_NOOP then
           (case READ_CHAR_OR_BAIL ''object key length (after no-op)'' b of
              Bail b1 \<Rightarrow> Some (Bail b1)
            | Ret m b1 \<Rightarrow> pairs_unsized_loop dv n b1 m fixed_type acc)
         else
           (case DECODE_OBJECT_KEY_OR_RAISE_ENCODER_EXCEPTION ''unsized'' b marker of
              Bail b1 \<Rightarrow> Some (Bail b1)
            | Ret key b1 \<Rightarrow>
                (case dv b1 fixed_type of
                   None \<Rightarrow> None
                 | Some (Bail b2) \<Rightarrow> Some (Bail b2)
                 | Some (Ret v b2) \<Rightarrow>
                     (case READ_CHAR_OR_BAIL ''object key length'' b2 of
                        Bail b3 \<Rightarrow> Some (Bail b3)
                      | Ret m b3 \<Rightarrow>
                          pairs_unsized_loop dv n b3 m fixed_type (acc @ [(key, v)])))))
      else Some (Ret acc b))"

text \<open>The list of pairs, before the hook is called.\<close>

definition decode_object_pairs ::
  "value_decoder \<Rightarrow> nat \<Rightarrow> decoder_buffer \<Rightarrow> (string \<times> pyobject) list result option" where
  "decode_object_pairs dv fuel buffer =
     (case get_container_params fuel buffer True False of
        None \<Rightarrow> None
      | Some (params, _, _, b) \<Rightarrow>
          (if p_invalid params then Some (Bail b)
           else if p_counting params then
             (if is_no_data_type (p_type params) then
                (case no_data_type (p_type params) b of
                   Bail b1 \<Rightarrow> Some (Bail b1)
                 | Ret v b1 \<Rightarrow>
                     Some (pairs_no_data_loop (nat (p_count params)) b1 (p_marker params) v []))
              else pairs_counted_loop dv fuel b (p_marker params) (p_count params)
                     (fixed_type_of (p_type params)) [])
           else pairs_unsized_loop dv fuel b (p_marker params)
                  (fixed_type_of (p_type params)) []))"

definition pairs_list :: "(string \<times> pyobject) list \<Rightarrow> pyobject" where
  "pairs_list ps = PyList (map (\<lambda>(key, v). PyTuple [PyUnicode key, v]) ps)"

definition decode_object_with_pairs_hook ::
  "value_decoder \<Rightarrow> nat \<Rightarrow> decoder_buffer \<Rightarrow> pyobject result option" where
  "decode_object_with_pairs_hook dv fuel buffer =
     (case decode_object_pairs dv fuel buffer of
        None \<Rightarrow> None
      | Some (Bail b) \<Rightarrow> Some (Bail b)
      | Some (Ret ps b) \<Rightarrow>
          (case object_pairs_hook (prefs b) of
             Some h \<Rightarrow> Some (call_hook h (pairs_list ps) b)
           | None \<Rightarrow> Some (Bail (b\<lparr>err := Some (OtherException ''SystemError'')\<rparr>))))"

subsection \<open>The value dispatcher\<close>

definition RETURN_OR_RAISE_DECODER_EXCEPTION ::
  "pyobject result \<Rightarrow> string \<Rightarrow> pyobject result" where
  "RETURN_OR_RAISE_DECODER_EXCEPTION item item_str =
     (case item of
        Ret obj b \<Rightarrow> Ret obj b
      | Bail b \<Rightarrow>
          (case err b of
             Some (DecoderException _ _) \<Rightarrow> Bail b
           | _ \<Rightarrow> RAISE_DECODER_EXCEPTION (''Failed to decode '' @ item_str) b))"

text \<open>
  \<open>Py_EnterRecursiveCall\<close> fails with a \<open>RecursionError\<close> when no nested call is
  left; \<open>Py_LeaveRecursiveCall\<close> gives the call back.
\<close>

definition RECURSE_AND_RETURN_OR_BAIL ::
  "(decoder_buffer \<Rightarrow> pyobject result option) \<Rightarrow> decoder_buffer \<Rightarrow> pyobject result option" where
  "RECURSE_AND_RETURN_OR_BAIL action b =
     (if recursion_left b = 0
      then Some (Bail (b\<lparr>err := Some (OtherException ''RecursionError'')\<rparr>))
      else
        (case action (b\<lparr>recursion_left := recursion_left b - 1\<rparr>) of
           None \<Rightarrow> None
         | Some (Ret v b') \<Rightarrow> Some (Ret v (b'\<lparr>recursion_left := Suc (recursion_left b')\<rparr>))
         | Some (Bail b') \<Rightarrow> Some (Bail (b'\<lparr>recursion_left := Suc (recursion_left b')\<rparr>))))"

definition decode_value_body ::
  "value_decoder \<Rightarrow> nat \<Rightarrow> decoder_buffer \<Rightarrow> byte option \<Rightarrow> pyobject result option" where
  "decode_value_body dv fuel buffer given_marker =
     (case (case given_marker of
              None \<Rightarrow> READ_CHAR_OR_BAIL ''Type marker'' buffer
            | Some m \<Rightarrow> Ret m buffer) of
        Bail b \<Rightarrow> Some (Bail b)
      | Ret marker b \<Rightarrow>
          (if marker = TYPE_NULL then Some (Ret PyNone b)
           else if marker = TYPE_BOOL_TRUE then Some (Ret (PyBool True) b)
           else if marker = TYPE_BOOL_FALSE then Some (Ret (PyBool False) b)
           else if marker = TYPE_CHAR
           then Some (RETURN_OR_RAISE_DECODER_EXCEPTION (decode_char b) ''char'')
           else if marker = TYPE_STRING
           then Some (RETURN_OR_RAISE_DECODER_EXCEPTION (decode_string b) ''string'')
           else if marker = TYPE_INT8
           then Some (RETURN_OR_RAISE_DECODER_EXCEPTION (decode_int8 b) ''int8'')
           else if marker = TYPE_INT16
           then Some (RETURN_OR_RAISE_DECODER_EXCEPTION (decode_int16_32 b 2) ''int16'')
           else if marker = TYPE_INT32
           then Some (RETURN_OR_RAISE_DECODER_EXCEPTION (decode_int16_32 b 4) ''int32'')
           else if marker = TYPE_INT64
           then Some (RETURN_OR_RAISE_DECODER_EXCEPTION (decode_int64 b) ''int64'')
           else if marker = TYPE_UINT8
           then Some (RETURN_OR_RAISE_DECODER_EXCEPTION (decode_uint8 b) ''uint8'')
           else if marker = TYPE_FLOAT16 \<or> marker = TYPE_UINT16
           then Some (RETURN_OR_RAISE_DECODER_EXCEPTION (decode_uint16_32 b 2) ''uint16'')
           else if marker = TYPE_UINT32
           then Some (RETURN_OR_RAISE_DECODER_EXCEPTION (decode_uint16_32 b 4) ''uint32'')
           else if marker = TYPE_UINT64
           then Some (RETURN_OR_RAISE_DECODER_EXCEPTION (decode_uint64 b) ''uint64'')
           else if marker = TYPE_FLOAT32
           then Some (RETURN_OR_RAISE_DECODER_EXCEPTION (decode_float32 b) ''float32'')
           else if marker = TYPE_FLOAT64
           then Some (RETURN_OR_RAISE_DECODER_EXCEPTION (decode_float64 b) ''float64'')
           else if marker = TYPE_HIGH_PREC
           then Some (RETURN_OR_RAISE_DECODER_EXCEPTION (decode_high_prec b) ''highprec'')
           else if marker = ARRAY_START
           then RECURSE_AND_RETURN_OR_BAIL (decode_array dv fuel) b
           else if marker = OBJECT_START then
             (if object_pairs_hook (prefs b) = None
              then RECURSE_AND_RETURN_OR_BAIL (decode_object dv fuel) b
              else RECURSE_AND_RETURN_OR_BAIL (decode_object_with_pairs_hook dv fuel) b)
           else Some (RAISE_DECODER_EXCEPTION ''Invalid marker'' b)))"

text \<open>
  \<open>_bjdata_decode_value\<close>: with fuel \<open>Suc n\<close> a container may run its loops for
  \<open>Suc n\<close> turns and decodes its elements with fuel \<open>n\<close>.
\<close>

primrec bjdata_decode_value :: "nat \<Rightarrow> value_decoder" where
  "bjdata_decode_value 0 = (\<lambda>buffer given_marker. None)"
| "bjdata_decode_value (Suc n) = decode_value_body (bjdata_decode_value n) (Suc n)"

subsection \<open>Buffers and hosts of the examples\<close>

definition default_prefs :: decoder_prefs where
  "default_prefs =
     \<lparr>object_hook = None, object_pairs_hook = None, no_bytes = False,
      intern_object_keys = False, islittle = False\<rparr>"

text \<open>A stand-in for \<open>decimal.Decimal\<close> that refuses the empty string.\<close>

definition Decimal :: "string \<Rightarrow> pyerr + pyobject" where
  "Decimal s =
     (if s = [] then Inl (OtherException ''decimal.InvalidOperation'') else Inr (PyDecimal s))"

text \<open>The buffer \<open>bjdata_decoder_buffer_create\<close> makes for a bytes object.\<close>

definition fixed_buffer :: "decoder_prefs \<Rightarrow> byte list \<Rightarrow> decoder_buffer" where
  "fixed_buffer p bs =
     (zero_buffer p Decimal 1000)\<lparr>view := bs, read_func := READ_FIXED, view_set := True\<rparr>"

text \<open>
  A stream of six bytes with a seek callable that always raises, after the decoder has
  read two bytes from it; \<open>seekable_failed\<close> is the same buffer with a decoder
  exception in flight.
\<close>

definition failing_seek :: "int \<Rightarrow> int \<Rightarrow> pyerr option" where
  "failing_seek off whence = Some (OtherException ''OSError'')"

definition seekable_start :: decoder_buffer where
  "seekable_start =
     (zero_buffer default_prefs Decimal 1000)
       \<lparr>input := [Returns ''abcdef''], read_func := READ_BUFFERED, seek := Some failing_seek\<rparr>"

definition seekable_read :: decoder_buffer where
  "seekable_read = snd (snd (READ_VIA_FUNC seekable_start 2))"

definition seekable_failed :: decoder_buffer where
  "seekable_failed = set_decoder_exception ''Invalid marker'' seekable_read"



text \<open>
  The inputs \<open>[ $ U U 01 U 02 ]\<close> (a type without a count), \<open>[ # U 02 U 01 U 02\<close>
  (a count without a type) and \<open>[ $ U # U 03 01 02 03\<close> (both).
\<close>

definition typed_no_count :: decoder_buffer where
  "typed_no_count = fixed_buffer default_prefs (''[$UU'' @ [CHR 0x01] @ ''U'' @ [CHR 0x02] @ '']'')"

definition count_no_type :: decoder_buffer where
  "count_no_type = fixed_buffer default_prefs (''[#U'' @ [CHR 0x02] @ ''U'' @ [CHR 0x01] @ ''U'' @ [CHR 0x02])"

definition typed_counted :: decoder_buffer where
  "typed_counted = fixed_buffer default_prefs (''[$U#U'' @ [CHR 0x03, CHR 0x01, CHR 0x02, CHR 0x03])"

text \<open>
  The typed and counted array again with \<open>no_bytes\<close> set, and two empty ones:
  \<open>[ $ U # U 00\<close> and \<open>[ $ D # U 00\<close>.
\<close>

definition typed_counted_list :: decoder_buffer where
  "typed_counted_list =
     fixed_buffer (default_prefs\<lparr>no_bytes := True\<rparr>)
       (''[$U#U'' @ [CHR 0x03, CHR 0x01, CHR 0x02, CHR 0x03])"

definition empty_bytes :: decoder_buffer where
  "empty_bytes = fixed_buffer default_prefs (''[$U#U'' @ [CHR 0x00])"

definition empty_doubles :: decoder_buffer where
  "empty_doubles = fixed_buffer default_prefs (''[$D#U'' @ [CHR 0x00])"

text \<open>
  The dictionary that \<open>PyDict_SetItem\<close> builds from a list of pairs, taken in order,
  starting from \<open>obj\<close>.
\<close>

definition dict_of :: "(string \<times> pyobject) list \<Rightarrow> (string \<times> pyobject) list \<Rightarrow> (string \<times> pyobject) list" where
  "dict_of obj ps = foldl (\<lambda>d (key, v). PyDict_SetItem d key v) obj ps"



text \<open>
  Inputs with no-op markers: the counted array \<open>[ # U 02 N U 01 N N U 02\<close>, the
  counted object \<open>{ # U 01 N U 01 a Z\<close> and the counted object of keys only
  \<open>{ $ Z # U 01 N U 01 a\<close>.
\<close>

definition noop_array :: decoder_buffer where
  "noop_array =
     fixed_buffer default_prefs
       (''[#U'' @ [CHR 0x02] @ ''NU'' @ [CHR 0x01] @ ''NNU'' @ [CHR 0x02])"

definition noop_object :: decoder_buffer where
  "noop_object =
     fixed_buffer default_prefs ([OBJECT_START] @ ''#U'' @ [CHR 0x01] @ ''NU'' @ [CHR 0x01] @ ''aZ'')"

definition noop_no_data :: decoder_buffer where
  "noop_no_data =
     fixed_buffer default_prefs ([OBJECT_START] @ ''$Z#U'' @ [CHR 0x01] @ ''NU'' @ [CHR 0x01] @ ''a'')"

text \<open>The exception a result leaves set, and the object it returns.\<close>

definition raised :: "'a result \<Rightarrow> pyerr option" where
  "raised r = (case r of Bail b \<Rightarrow> err b | Ret v b \<Rightarrow> None)"

definition returned :: "'a result \<Rightarrow> 'a option" where
  "returned r = (case r of Bail b \<Rightarrow> None | Ret v b \<Rightarrow> Some v)"

definition bytes_read :: "'a result \<Rightarrow> int" where
  "bytes_read r = (case r of Bail b \<Rightarrow> total_read b | Ret v b \<Rightarrow> total_read b)"

subsection \<open>The invariant of the buffered reader\<close>

text \<open>
  Whenever the seekable reader holds no view, \<open>pos\<close> is zero: \<open>calloc\<close> makes it
  so, and the reader resets \<open>pos\<close> when it releases a view.
\<close>

definition buffer_inv :: "decoder_buffer \<Rightarrow> bool" where
  "buffer_inv b = (read_func b \<noteq> READ_BUFFERED \<or> view_set b \<or> pos b = 0)"

section \<open>Properties\<close>

subsection \<open>Reading\<close>

lemma read_fixed_total_read:
  "0 \<le> len \<Longrightarrow> decoder_buffer_read_fixed b len = (c, l, b') \<Longrightarrow>
   total_read b \<le> total_read b' \<and> read_func b' = read_func b"
  by (auto simp: decoder_buffer_read_fixed_def Let_def split: if_splits)

lemma call_input_fields:
  "call_input b n = (r, b') \<Longrightarrow>
   total_read b' = total_read b \<and> pos b' = pos b \<and> read_func b' = read_func b \<and>
   view_set b' = view_set b"
  by (auto simp: call_input_def split: list.splits)

lemma read_callable_total_read:
  "decoder_buffer_read_callable b len = (c, l, b') \<Longrightarrow>
   total_read b \<le> total_read b' \<and> read_func b' = read_func b"
  by (auto simp: decoder_buffer_read_callable_def Let_def
      split: if_splits prod.splits call_result.splits dest!: call_input_fields)

lemma read_buffered_total_read:
  "0 \<le> len \<Longrightarrow> view_set b \<or> pos b = 0 \<Longrightarrow> decoder_buffer_read_buffered b len = (c, l, b') \<Longrightarrow>
   total_read b \<le> total_read b' \<and> read_func b' = read_func b \<and> (view_set b' \<or> pos b' = 0)"
  by (auto simp: decoder_buffer_read_buffered_def Let_def
      split: if_splits prod.splits call_result.splits dest!: call_input_fields)

lemma buffer_create_inv:
  "bjdata_decoder_buffer_create p inp sk dec depth = Inr b \<Longrightarrow> buffer_inv b \<and> total_read b = 0"
  by (auto simp: bjdata_decoder_buffer_create_def zero_buffer_def buffer_inv_def
      split: py_input.splits option.splits)

text \<open>
  C9. A read of a non-negative number of bytes, through any of the three read functions,
  whether it returns a chunk or \<open>NULL\<close>, leaves \<open>total_read\<close> at least as large as
  it was, and keeps the invariant of the buffered reader, which every buffer has when
  it is created.
\<close>

theorem total_read_never_decreases:
  assumes "0 \<le> len" and "buffer_inv b" and "READ_VIA_FUNC b len = (chunk, len', b')"
  shows "total_read b \<le> total_read b' \<and> buffer_inv b'"
  using assms unfolding READ_VIA_FUNC_def buffer_inv_def
  by (cases "read_func b")
    (auto dest: read_fixed_total_read read_callable_total_read read_buffered_total_read)

lemma seekable_read_eq:
  "seekable_read =
     seekable_start\<lparr>input := [], trace := [ReadCall 256], view := ''abcdef'',
       view_set := True, pos := 2, total_read := 2\<rparr>"
  by (simp add: seekable_read_def READ_VIA_FUNC_def seekable_start_def zero_buffer_def
      decoder_buffer_read_buffered_def call_input_def Let_def)

lemma seekable_read_result:
  "READ_VIA_FUNC seekable_start 2 = (Some ''ab'', 2, seekable_read)"
  unfolding seekable_read_eq
  by (simp add: READ_VIA_FUNC_def seekable_start_def zero_buffer_def
      decoder_buffer_read_buffered_def call_input_def Let_def)

theorem total_read_never_decreases_witness:
  "(0::int) \<le> 2 \<and> buffer_inv seekable_start \<and>
   total_read seekable_start = 0 \<and> total_read seekable_read = 2 \<and> buffer_inv seekable_read"
proof -
  have inv: "buffer_inv seekable_start"
    by (simp add: buffer_inv_def seekable_start_def zero_buffer_def)
  have "total_read seekable_start \<le> total_read seekable_read \<and> buffer_inv seekable_read"
    using total_read_never_decreases [OF _ inv seekable_read_result] by simp
  moreover have "total_read seekable_start = 0"
    by (simp add: seekable_start_def zero_buffer_def)
  moreover have "total_read seekable_read = 2"
    by (simp add: seekable_read_eq)
  ultimately show ?thesis using inv by simp
qed

subsection \<open>Teardown\<close>

text \<open>
  C8. When a seekable buffer is torn down while its view holds bytes that were not
  handed out (\<open>pos < view.len\<close>), the seek callable is called once, with the offset
  \<open>pos - view.len\<close> and \<open>whence = 1\<close>, and the view is released after that call. An
  exception in flight before the teardown is still set afterwards and the teardown does
  not report failure, whatever the seek call did; with no exception in flight, a seek
  call that raises makes the teardown report failure with the seek's exception set.
\<close>

theorem teardown_rewinds_lookahead:
  assumes "seek b = Some sk" and "view_set b" and "pos b < int (length (view b))"
  shows "bjdata_decoder_buffer_free (Some b) =
     (err b = None \<and> sk (pos b - int (length (view b))) IO_SEEK_CUR \<noteq> None,
      (case err b of
         Some e \<Rightarrow> Some e
       | None \<Rightarrow> sk (pos b - int (length (view b))) IO_SEEK_CUR),
      trace b @ [SeekCall (pos b - int (length (view b))) IO_SEEK_CUR, ViewRelease])"
  using assms
  by (simp add: bjdata_decoder_buffer_free_def Let_def split: option.splits)

theorem teardown_rewinds_lookahead_witness:
  "bjdata_decoder_buffer_free (Some seekable_read) =
     (True, Some (OtherException ''OSError''), [ReadCall 256, SeekCall (- 4) 1, ViewRelease]) \<and>
   bjdata_decoder_buffer_free (Some seekable_failed) =
     (False, Some (DecoderException ''Invalid marker'' 2),
      [ReadCall 256, SeekCall (- 4) 1, ViewRelease])"
proof -
  have r: "seek seekable_read = Some failing_seek" "view_set seekable_read"
    "pos seekable_read = 2" "view seekable_read = ''abcdef''" "err seekable_read = None"
    "trace seekable_read = [ReadCall 256]"
    by (simp_all add: seekable_read_eq seekable_start_def zero_buffer_def)
  have f: "seek seekable_failed = Some failing_seek" "view_set seekable_failed"
    "pos seekable_failed = 2" "view seekable_failed = ''abcdef''"
    "err seekable_failed = Some (DecoderException ''Invalid marker'' 2)"
    "trace seekable_failed = [ReadCall 256]"
    by (simp_all add: seekable_failed_def set_decoder_exception_def seekable_read_eq
        seekable_start_def zero_buffer_def)
  show ?thesis
    using teardown_rewinds_lookahead [of seekable_read failing_seek]
      teardown_rewinds_lookahead [of seekable_failed failing_seek]
    by (simp add: r f failing_seek_def)
qed

subsection \<open>Reading from a fixed buffer\<close>

lemma READ_OR_BAIL_fixed:
  assumes "read_func b = READ_FIXED" and "0 \<le> total_read b" and "0 < n"
    and "total_read b + n \<le> int (length (view b))"
  shows "READ_OR_BAIL n s b =
     Ret (take (nat n) (drop (nat (total_read b)) (view b))) (b\<lparr>total_read := total_read b + n\<rparr>)"
  using assms
  by (simp add: READ_OR_BAIL_def READ_VIA_FUNC_def decoder_buffer_read_fixed_def
      ACTION_READ_ERROR_def Let_def min_def)

lemma READ_CHAR_OR_BAIL_fixed:
  assumes "read_func b = READ_FIXED" and "0 \<le> total_read b"
    and "total_read b < int (length (view b))"
  shows "READ_CHAR_OR_BAIL s b =
     Ret (view b ! nat (total_read b)) (b\<lparr>total_read := total_read b + 1\<rparr>)"
proof -
  have less: "nat (total_read b) < length (view b)"
    using assms by linarith
  then obtain c cs where d: "drop (nat (total_read b)) (view b) = c # cs"
    by (cases "drop (nat (total_read b)) (view b)") auto
  have "hd (drop (nat (total_read b)) (view b)) = view b ! nat (total_read b)"
    using less by (rule hd_drop_conv_nth)
  then have "c = view b ! nat (total_read b)"
    using d by simp
  then show ?thesis
    using assms d READ_OR_BAIL_fixed [of b 1 s]
    by (simp add: READ_CHAR_OR_BAIL_def)
qed

lemma take2_drop:
  "n + 2 \<le> length xs \<Longrightarrow> take 2 (drop n xs) = [xs ! n, xs ! Suc n]"
  by (simp add: take_Suc_conv_app_nth numeral_2_eq_2)

text \<open>The definitions that evaluate the decoder on a concrete fixed buffer.\<close>

lemmas read_eval =
  READ_CHAR_OR_BAIL_def READ_OR_BAIL_def ACTION_READ_ERROR_def READ_VIA_FUNC_def
  decoder_buffer_read_fixed_def RAISE_DECODER_EXCEPTION_def set_decoder_exception_def
  fixed_buffer_def zero_buffer_def default_prefs_def Let_def

lemmas scalar_eval =
  decode_int_non_negative_def decode_int_switch_def decode_int8_def decode_uint8_def
  decode_uint16_32_def decode_int16_32_def decode_uint64_def decode_int64_def
  PyLong_AsLongLong_def assemble_def extend_sign_def byte_word_def store_byte_def
  decode_string_def decode_char_def decode_high_prec_def DECODE_UNICODE_OR_BAIL_def
  PyUnicode_FromStringAndSize_def utf8_cont_def RETURN_OR_RAISE_DECODER_EXCEPTION_def
  decode_value_body_def

subsection \<open>Assembling integers\<close>

lemma of_char_lt: "of_char c < (256::nat)"
  by (cases c) (simp add: of_char_Char)

lemma byte_word_take: "take_bit 8 (byte_word c) = byte_word c"
proof -
  have "take_bit 8 (of_char c :: nat) = of_char c"
    by (rule take_bit_nat_eq_self) (use of_char_lt [of c] in simp)
  then show ?thesis
    by (simp add: byte_word_def take_bit_of_nat)
qed

lemma uint_byte_word: "uint (byte_word c) = int (of_char c)"
proof -
  have "of_char c < (18446744073709551616::nat)"
    using of_char_lt [of c] by linarith
  then show ?thesis
    unfolding byte_word_def by (simp add: uint_nat unat_of_nat)
qed

lemma or_disjoint: "push_bit 8 (byte_word a) OR byte_word b = push_bit 8 (byte_word a) + byte_word b"
proof -
  have "byte_word b + push_bit 8 (byte_word a) = byte_word b OR push_bit 8 (byte_word a)"
    by (rule disjunctive_add_eq_or) (subst byte_word_take [symmetric], rule bit_eqI, simp add: bit_simps)
  then show ?thesis by (simp add: ac_simps)
qed

lemma be16: "uint (push_bit 8 (byte_word a) OR byte_word b) = 256 * int (of_char a) + int (of_char b)"
proof -
  have la: "int (of_char a) < 256" and lb: "int (of_char b) < 256"
    using of_char_lt [of a] of_char_lt [of b] by simp_all
  have m1: "(int (of_char a) * 256) mod 18446744073709551616 = int (of_char a) * 256"
    by (rule mod_pos_pos_trivial) (use la in linarith)+
  have m2: "(int (of_char a) * 256 + int (of_char b)) mod 18446744073709551616 =
      int (of_char a) * 256 + int (of_char b)"
    by (rule mod_pos_pos_trivial) (use la lb in linarith)+
  have "uint (push_bit 8 (byte_word a) + byte_word b) =
      (uint (push_bit 8 (byte_word a)) + uint (byte_word b)) mod 18446744073709551616"
    by (simp add: uint_word_ariths)
  also have "uint (push_bit 8 (byte_word a)) = (int (of_char a) * 256) mod 18446744073709551616"
    by (simp add: push_bit_eq_mult uint_word_ariths uint_byte_word)
  finally have "uint (push_bit 8 (byte_word a) + byte_word b) =
      int (of_char a) * 256 + int (of_char b)"
    by (simp only: m1 m2 uint_byte_word)
  then show ?thesis by (simp only: or_disjoint mult.commute)
qed

lemma low_and_not_high: "take_bit 8 x AND NOT (push_bit 8 y) = take_bit 8 (x :: 64 word)"
  by (rule bit_eqI) (auto simp: bit_simps)

lemma clear_high: "byte_word a AND - 65281 = byte_word a"
proof -
  have "(- 65281 :: 64 word) = NOT (push_bit 8 255)" by simp
  then show ?thesis
    using low_and_not_high [of "byte_word a" 255] by (simp only: byte_word_take)
qed

lemma le16: "store_byte (store_byte 0 0 a) (Suc 0) b = push_bit 8 (byte_word b) OR byte_word a"
  by (simp add: store_byte_def clear_high or.commute)

lemma assemble_u16:
  "uint (assemble le 2 [c0, c1]) =
     (if le then int (of_char c0) + 256 * int (of_char c1)
      else 256 * int (of_char c0) + int (of_char c1))"
  by (simp add: assemble_def le16 be16)






subsection \<open>The float16 marker\<close>

text \<open>
  C1, as the code has it. With the marker \<open>h\<close> in a scalar position the dispatcher
  does what it does for the uint16 marker \<open>u\<close>, on every backend. On a fixed buffer
  with two bytes left it reads exactly these two bytes and returns the integer they
  encode as an unsigned 16-bit number, in the byte order \<open>islittle\<close> selects; no
  IEEE-754 conversion takes place and no float is returned.
\<close>

theorem float16_scalar_is_uint16:
  "decode_value_body dv fuel b (Some TYPE_FLOAT16) =
     decode_value_body dv fuel b (Some TYPE_UINT16) \<and>
   (read_func b = READ_FIXED \<and> 0 \<le> total_read b \<and>
    total_read b + 2 \<le> int (length (view b)) \<longrightarrow>
    decode_value_body dv fuel b (Some TYPE_FLOAT16) =
      Some (Ret (PyLong
                  (if islittle (prefs b)
                   then int (of_char (view b ! nat (total_read b))) +
                        256 * int (of_char (view b ! Suc (nat (total_read b))))
                   else 256 * int (of_char (view b ! nat (total_read b))) +
                        int (of_char (view b ! Suc (nat (total_read b))))))
              (b\<lparr>total_read := total_read b + 2\<rparr>)))"
proof -
  have same: "decode_value_body dv fuel b (Some TYPE_FLOAT16) =
      decode_value_body dv fuel b (Some TYPE_UINT16)"
    by (simp add: decode_value_body_def)
  have fixed: "decode_value_body dv fuel b (Some TYPE_FLOAT16) =
      Some (Ret (PyLong
                  (if islittle (prefs b)
                   then int (of_char (view b ! nat (total_read b))) +
                        256 * int (of_char (view b ! Suc (nat (total_read b))))
                   else 256 * int (of_char (view b ! nat (total_read b))) +
                        int (of_char (view b ! Suc (nat (total_read b))))))
              (b\<lparr>total_read := total_read b + 2\<rparr>))"
    if f: "read_func b = READ_FIXED" and z: "0 \<le> total_read b"
      and l: "total_read b + 2 \<le> int (length (view b))"
  proof -
    have "nat (total_read b) + 2 \<le> length (view b)"
      using z l by linarith
    then have t: "take 2 (drop (nat (total_read b)) (view b)) =
        [view b ! nat (total_read b), view b ! Suc (nat (total_read b))]"
      by (rule take2_drop)
    have r: "READ_OR_BAIL 2 ''uint16/32'' b =
        Ret [view b ! nat (total_read b), view b ! Suc (nat (total_read b))]
          (b\<lparr>total_read := total_read b + 2\<rparr>)"
      using READ_OR_BAIL_fixed [OF f z _ l] t by simp
    show ?thesis
      by (simp add: decode_value_body_def decode_uint16_32_def r
          RETURN_OR_RAISE_DECODER_EXCEPTION_def assemble_u16)
  qed
  show ?thesis using same fixed by blast
qed

theorem float16_scalar_is_uint16_witness:
  "bjdata_decode_value 1 (fixed_buffer default_prefs [CHR 0x3C, CHR 0x00]) (Some TYPE_FLOAT16) =
     Some (Ret (PyLong 15360) ((fixed_buffer default_prefs [CHR 0x3C, CHR 0x00])\<lparr>total_read := 2\<rparr>))"
proof -
  let ?b = "fixed_buffer default_prefs [CHR 0x3C, CHR 0x00]"
  have pre: "read_func ?b = READ_FIXED \<and> 0 \<le> total_read ?b \<and>
      total_read ?b + 2 \<le> int (length (view ?b))"
    by (simp add: fixed_buffer_def zero_buffer_def)
  have v: "view ?b = [CHR 0x3C, CHR 0x00]" "total_read ?b = 0" "\<not> islittle (prefs ?b)"
    by (simp_all add: fixed_buffer_def zero_buffer_def default_prefs_def)
  show ?thesis
    using float16_scalar_is_uint16
      [of "bjdata_decode_value 0" 1 ?b, THEN conjunct2, THEN mp, OF pre]
    by (simp add: v)
qed

text \<open>
  The half-precision pattern \<open>3C 00\<close> is the float 1.0; the decoder returns the
  integer 15360.
\<close>

theorem float16_scalar_counterexample:
  "map_option returned
     (bjdata_decode_value 1 (fixed_buffer default_prefs (''h'' @ [CHR 0x3C, CHR 0x00])) None) =
     Some (Some (PyLong 15360)) \<and>
   map_option bytes_read
     (bjdata_decode_value 1 (fixed_buffer default_prefs (''h'' @ [CHR 0x3C, CHR 0x00])) None) =
     Some 3"
  by (simp add: read_eval scalar_eval returned_def bytes_read_def)

subsection \<open>Negative lengths\<close>




subsection \<open>Container headers\<close>

lemma container_type_prefix_untyped:
  "READ_CHAR_OR_BAIL ''container type, count or 1st key/value type'' b = Ret m b1 \<Longrightarrow>
   m \<noteq> CONTAINER_TYPE \<Longrightarrow>
   container_type_prefix b = (params0, m, b1)"
  by (simp add: container_type_prefix_def params0_def)

lemma container_type_prefix_typed:
  "READ_CHAR_OR_BAIL ''container type, count or 1st key/value type'' b = Ret CONTAINER_TYPE b1 \<Longrightarrow>
   READ_CHAR_OR_BAIL ''container type'' b1 = Ret t b2 \<Longrightarrow> is_container_type t \<Longrightarrow>
   READ_CHAR_OR_BAIL ''container count or 1st key/value type'' b2 = Ret m b3 \<Longrightarrow>
   container_type_prefix b = (params0\<lparr>p_type := t\<rparr>, m, b3)"
  by (simp add: container_type_prefix_def)

lemma header_after_count:
  assumes "container_type_prefix b = (params, CONTAINER_COUNT, b1)" and "\<not> p_invalid params"
    and "READ_CHAR_OR_BAIL
           ''container count marker or optimized ND-array dimension array marker'' b1 = Ret m2 b2"
    and "\<not> (m2 = ARRAY_START \<and> nd)"
    and "decode_int_non_negative b2 (Some m2) = Ret n b3"
  shows "get_container_params (Suc fuel) b in_mapping nd =
     (case first_marker (params\<lparr>p_counting := True, p_count := n\<rparr>) in_mapping b3 of
        (params', b4) \<Rightarrow> Some (params', 0, [], b4))"
  using assms by auto

lemmas container_eval =
  container_type_prefix_def params0_def is_container_type_def first_marker_def
  is_no_data_type_def is_fixed_len_type_def get_type_info_def no_data_type_def

text \<open>
  C4. In a container header, a \<open>$\<close> with a valid type that is followed by a byte other
  than \<open>#\<close> makes the header invalid with the decoder exception "Container type
  without count", raised at the offset after that byte. A \<open>#\<close> with no \<open>$\<close> before
  it is accepted: once its count \<open>n\<close> is decoded (and, for \<open>n > 0\<close>, the marker of
  the first element is read), the header comes back valid, counting, with count
  \<open>n\<close> and no type.
\<close>

theorem typed_container_needs_count:
  "(READ_CHAR_OR_BAIL ''container type, count or 1st key/value type'' b = Ret CONTAINER_TYPE b1 \<and>
    READ_CHAR_OR_BAIL ''container type'' b1 = Ret t b2 \<and> is_container_type t \<and>
    READ_CHAR_OR_BAIL ''container count or 1st key/value type'' b2 = Ret m b3 \<and>
    m \<noteq> CONTAINER_COUNT \<longrightarrow>
    get_container_params (Suc fuel) b in_mapping nd =
      Some (params0\<lparr>p_type := t, p_invalid := True\<rparr>, 0, [],
            b3\<lparr>err := Some (DecoderException ''Container type without count'' (total_read b3))\<rparr>)) \<and>
   (READ_CHAR_OR_BAIL ''container type, count or 1st key/value type'' b = Ret CONTAINER_COUNT b1 \<and>
    READ_CHAR_OR_BAIL
      ''container count marker or optimized ND-array dimension array marker'' b1 = Ret m2 b2 \<and>
    \<not> (m2 = ARRAY_START \<and> nd) \<and>
    decode_int_non_negative b2 (Some m2) = Ret n b3 \<and>
    (if n > 0 then READ_CHAR_OR_BAIL ''1st key/value type'' b3 = Ret m b4
     else m = TYPE_NONE \<and> b4 = b3) \<longrightarrow>
    get_container_params (Suc fuel) b in_mapping nd =
      Some (\<lparr>p_marker = m, p_counting = True, p_count = n, p_type = TYPE_NONE,
              p_invalid = False\<rparr>, 0, [], b4))"
proof -
  have typed: "get_container_params (Suc fuel) b in_mapping nd =
      Some (params0\<lparr>p_type := t, p_invalid := True\<rparr>, 0, [],
            b3\<lparr>err := Some (DecoderException ''Container type without count'' (total_read b3))\<rparr>)"
    if "READ_CHAR_OR_BAIL ''container type, count or 1st key/value type'' b = Ret CONTAINER_TYPE b1"
      "READ_CHAR_OR_BAIL ''container type'' b1 = Ret t b2" "is_container_type t"
      "READ_CHAR_OR_BAIL ''container count or 1st key/value type'' b2 = Ret m b3"
      "m \<noteq> CONTAINER_COUNT"
  proof -
    have "t \<noteq> TYPE_NONE"
      using that(3) by (auto simp: is_container_type_def)
    then show ?thesis
      using container_type_prefix_typed [OF that(1-4)] that(5)
      by (simp add: params0_def set_decoder_exception_def)
  qed
  have counted: "get_container_params (Suc fuel) b in_mapping nd =
      Some (\<lparr>p_marker = m, p_counting = True, p_count = n, p_type = TYPE_NONE,
              p_invalid = False\<rparr>, 0, [], b4)"
    if r: "READ_CHAR_OR_BAIL ''container type, count or 1st key/value type'' b = Ret CONTAINER_COUNT b1"
      "READ_CHAR_OR_BAIL
        ''container count marker or optimized ND-array dimension array marker'' b1 = Ret m2 b2"
      "\<not> (m2 = ARRAY_START \<and> nd)"
      "decode_int_non_negative b2 (Some m2) = Ret n b3"
      and f: "if n > 0 then READ_CHAR_OR_BAIL ''1st key/value type'' b3 = Ret m b4
        else m = TYPE_NONE \<and> b4 = b3"
  proof -
    have p: "container_type_prefix b = (params0, CONTAINER_COUNT, b1)"
      using r(1) by (simp add: container_type_prefix_untyped)
    have v: "\<not> p_invalid params0" by (simp add: params0_def)
    show ?thesis
      using header_after_count [OF p v r(2-4), of fuel in_mapping] f
      by (auto simp: first_marker_def params0_def split: if_splits)
  qed
  show ?thesis using typed counted by blast
qed

theorem typed_container_needs_count_witness:
  "get_container_params 1 (typed_no_count\<lparr>total_read := 1\<rparr>) False True =
     Some (params0\<lparr>p_type := TYPE_UINT8, p_invalid := True\<rparr>, 0, [],
           typed_no_count\<lparr>total_read := 4,
             err := Some (DecoderException ''Container type without count'' 4)\<rparr>) \<and>
   get_container_params 1 (count_no_type\<lparr>total_read := 1\<rparr>) False True =
     Some (\<lparr>p_marker = TYPE_UINT8, p_counting = True, p_count = 2, p_type = TYPE_NONE,
             p_invalid = False\<rparr>, 0, [], count_no_type\<lparr>total_read := 5\<rparr>)"
proof -
  have a: "READ_CHAR_OR_BAIL ''container type, count or 1st key/value type''
        (typed_no_count\<lparr>total_read := 1\<rparr>) = Ret CONTAINER_TYPE (typed_no_count\<lparr>total_read := 2\<rparr>) \<and>
      READ_CHAR_OR_BAIL ''container type'' (typed_no_count\<lparr>total_read := 2\<rparr>) =
        Ret TYPE_UINT8 (typed_no_count\<lparr>total_read := 3\<rparr>) \<and>
      is_container_type TYPE_UINT8 \<and>
      READ_CHAR_OR_BAIL ''container count or 1st key/value type'' (typed_no_count\<lparr>total_read := 3\<rparr>) =
        Ret TYPE_UINT8 (typed_no_count\<lparr>total_read := 4\<rparr>) \<and>
      TYPE_UINT8 \<noteq> CONTAINER_COUNT"
    by (simp add: typed_no_count_def read_eval is_container_type_def)
  have b: "READ_CHAR_OR_BAIL ''container type, count or 1st key/value type''
        (count_no_type\<lparr>total_read := 1\<rparr>) = Ret CONTAINER_COUNT (count_no_type\<lparr>total_read := 2\<rparr>) \<and>
      READ_CHAR_OR_BAIL
        ''container count marker or optimized ND-array dimension array marker''
        (count_no_type\<lparr>total_read := 2\<rparr>) = Ret TYPE_UINT8 (count_no_type\<lparr>total_read := 3\<rparr>) \<and>
      \<not> (TYPE_UINT8 = ARRAY_START \<and> True) \<and>
      decode_int_non_negative (count_no_type\<lparr>total_read := 3\<rparr>) (Some TYPE_UINT8) =
        Ret 2 (count_no_type\<lparr>total_read := 4\<rparr>) \<and>
      (if (2::int) > 0
       then READ_CHAR_OR_BAIL ''1st key/value type'' (count_no_type\<lparr>total_read := 4\<rparr>) =
              Ret TYPE_UINT8 (count_no_type\<lparr>total_read := 5\<rparr>)
       else TYPE_UINT8 = TYPE_NONE \<and> count_no_type\<lparr>total_read := 5\<rparr> = count_no_type\<lparr>total_read := 4\<rparr>)"
    by (simp add: count_no_type_def read_eval scalar_eval)
  have one: "get_container_params (Suc 0) (typed_no_count\<lparr>total_read := 1\<rparr>) False True =
      Some (params0\<lparr>p_type := TYPE_UINT8, p_invalid := True\<rparr>, 0, [],
            typed_no_count\<lparr>total_read := 4,
              err := Some (DecoderException ''Container type without count''
                (total_read (typed_no_count\<lparr>total_read := 4\<rparr>)))\<rparr>)"
    using typed_container_needs_count [THEN conjunct1, THEN mp, OF a, of 0 False True]
    by simp
  have two: "get_container_params (Suc 0) (count_no_type\<lparr>total_read := 1\<rparr>) False True =
     Some (\<lparr>p_marker = TYPE_UINT8, p_counting = True, p_count = 2, p_type = TYPE_NONE,
             p_invalid = False\<rparr>, 0, [], count_no_type\<lparr>total_read := 5\<rparr>)"
    using typed_container_needs_count [THEN conjunct2, THEN mp, OF b, of 0 False]
    by simp
  show ?thesis using one two by simp
qed




subsection \<open>Counted arrays of bytes\<close>

lemma get_container_params_fuel:
  "get_container_params fuel b in_mapping nd = Some r \<Longrightarrow> \<exists>n. fuel = Suc n"
  by (cases fuel) simp_all

lemma READ_OR_BAIL_zero: "READ_OR_BAIL 0 s b = Ret [] b"
  by (simp add: READ_OR_BAIL_def READ_VIA_FUNC_def ACTION_READ_ERROR_def
      decoder_buffer_read_fixed_def decoder_buffer_read_callable_def
      decoder_buffer_read_buffered_def split: read_func.splits)

lemmas array_eval =
  decode_array_def packed_array_def RECURSE_AND_RETURN_OR_BAIL_def

lemma typed_counted_header:
  "get_container_params 1 (typed_counted\<lparr>total_read := 1\<rparr>) False True =
     Some (\<lparr>p_marker = TYPE_UINT8, p_counting = True, p_count = 3, p_type = TYPE_UINT8,
             p_invalid = False\<rparr>, 0, [], typed_counted\<lparr>total_read := 6\<rparr>)"
  by (simp add: typed_counted_def read_eval scalar_eval container_eval)

lemma typed_counted_list_header:
  "get_container_params 1 (typed_counted_list\<lparr>total_read := 1\<rparr>) False True =
     Some (\<lparr>p_marker = TYPE_UINT8, p_counting = True, p_count = 3, p_type = TYPE_UINT8,
             p_invalid = False\<rparr>, 0, [], typed_counted_list\<lparr>total_read := 6\<rparr>)"
  by (simp add: typed_counted_list_def read_eval scalar_eval container_eval)

text \<open>
  C2, as the code has it. For a counted array with global type \<open>U\<close> and no N-D
  header, read from a fixed buffer that holds the payload: with \<open>no_bytes\<close> unset the
  result is the byte vector of the \<open>count\<close> payload bytes; with \<open>no_bytes\<close> set and
  \<open>count > 0\<close> the array takes the path of the 1-D packed arrays and the result is a
  numpy array of type \<open>NPY_UBYTE\<close> and shape \<open>[count]\<close> over the same bytes, not
  a list of integers; with \<open>no_bytes\<close> set and \<open>count = 0\<close> it is the empty list.
\<close>

theorem counted_u8_array:
  assumes hdr: "get_container_params fuel b False True = Some (params, 0, dims, b')"
    and valid: "\<not> p_invalid params" "p_counting params" "p_type params = TYPE_UINT8"
    and fixed: "read_func b' = READ_FIXED" "0 \<le> total_read b'"
    and avail: "0 \<le> p_count params" "total_read b' + p_count params \<le> int (length (view b'))"
  shows "decode_array dv fuel b =
     Some (Ret (if \<not> no_bytes (prefs b')
                then PyBytes (take (nat (p_count params)) (drop (nat (total_read b')) (view b')))
                else if p_count params > 0
                then PyArray NPY_UBYTE [p_count params]
                       (take (nat (p_count params)) (drop (nat (total_read b')) (view b')))
                else PyList [])
             (b'\<lparr>total_read := total_read b' + p_count params\<rparr>))"
proof (cases "p_count params = 0")
  case True
  obtain n where n: "fuel = Suc n"
    using get_container_params_fuel [OF hdr] by blast
  show ?thesis
    using hdr valid True
    by (simp add: decode_array_def READ_OR_BAIL_zero is_no_data_type_def n)
next
  case False
  then have pos: "0 < p_count params"
    using avail(1) by simp
  have r: "READ_OR_BAIL (p_count params) s b' =
      Ret (take (nat (p_count params)) (drop (nat (total_read b')) (view b')))
        (b'\<lparr>total_read := total_read b' + p_count params\<rparr>)" for s
    by (rule READ_OR_BAIL_fixed [OF fixed pos avail(2)])
  show ?thesis
    using hdr valid pos
    by (simp add: decode_array_def r is_no_data_type_def is_fixed_len_type_def packed_array_def
        get_type_info_def)
qed

theorem counted_u8_array_witness:
  "decode_array (bjdata_decode_value 0) 1 (typed_counted\<lparr>total_read := 1\<rparr>) =
     Some (Ret (PyBytes [CHR 0x01, CHR 0x02, CHR 0x03]) (typed_counted\<lparr>total_read := 9\<rparr>)) \<and>
   decode_array (bjdata_decode_value 0) 1 (typed_counted_list\<lparr>total_read := 1\<rparr>) =
     Some (Ret (PyArray NPY_UBYTE [3] [CHR 0x01, CHR 0x02, CHR 0x03])
             (typed_counted_list\<lparr>total_read := 9\<rparr>))"
proof -
  have a: "decode_array (bjdata_decode_value 0) 1 (typed_counted\<lparr>total_read := 1\<rparr>) =
     Some (Ret (PyBytes [CHR 0x01, CHR 0x02, CHR 0x03]) (typed_counted\<lparr>total_read := 9\<rparr>))"
    using counted_u8_array [OF typed_counted_header, of "bjdata_decode_value 0"]
    by (simp add: typed_counted_def read_eval)
  have b: "decode_array (bjdata_decode_value 0) 1 (typed_counted_list\<lparr>total_read := 1\<rparr>) =
     Some (Ret (PyArray NPY_UBYTE [3] [CHR 0x01, CHR 0x02, CHR 0x03])
             (typed_counted_list\<lparr>total_read := 9\<rparr>))"
    using counted_u8_array [OF typed_counted_list_header, of "bjdata_decode_value 0"]
    by (simp add: typed_counted_list_def read_eval)
  show ?thesis using a b by simp
qed

text \<open>
  The input \<open>[ $ U # U 03 01 02 03\<close> with \<open>no_bytes\<close> set: the result is a packed
  array, not the list \<open>[1, 2, 3]\<close>.
\<close>

theorem no_bytes_list_counterexample:
  "map_option returned (bjdata_decode_value 1 typed_counted_list None) =
     Some (Some (PyArray NPY_UBYTE [3] [CHR 0x01, CHR 0x02, CHR 0x03])) \<and>
   map_option returned (bjdata_decode_value 1 typed_counted_list None) \<noteq>
     Some (Some (PyList [PyLong 1, PyLong 2, PyLong 3]))"
  by (simp add: typed_counted_list_def read_eval scalar_eval container_eval array_eval returned_def)

text \<open>
  C10. For a counted array with count 0 and no N-D header, on every backend: with the
  global type \<open>U\<close> and \<open>no_bytes\<close> unset the result is the empty byte vector;
  with any other fixed-width global type (or \<open>U\<close> with \<open>no_bytes\<close> set) it is the
  empty list. In both cases the buffer is the one the header left: no payload is read.
\<close>

theorem empty_counted_array:
  assumes hdr: "get_container_params fuel b False True = Some (params, 0, dims, b')"
    and valid: "\<not> p_invalid params" "p_counting params" "p_count params = 0"
    and t: "is_fixed_len_type (p_type params)"
  shows "decode_array dv fuel b =
     Some (Ret (if p_type params = TYPE_UINT8 \<and> \<not> no_bytes (prefs b') then PyBytes []
                else PyList []) b')"
proof -
  obtain n where n: "fuel = Suc n"
    using get_container_params_fuel [OF hdr] by blast
  have "\<not> is_no_data_type (p_type params)"
    using t by (auto simp: is_fixed_len_type_def is_no_data_type_def)
  then show ?thesis
    using hdr valid
    by (simp add: decode_array_def READ_OR_BAIL_zero n)
qed

theorem empty_counted_array_witness:
  "decode_array (bjdata_decode_value 0) 1 (empty_bytes\<lparr>total_read := 1\<rparr>) =
     Some (Ret (PyBytes []) (empty_bytes\<lparr>total_read := 6\<rparr>)) \<and>
   decode_array (bjdata_decode_value 0) 1 (empty_doubles\<lparr>total_read := 1\<rparr>) =
     Some (Ret (PyList []) (empty_doubles\<lparr>total_read := 6\<rparr>))"
proof -
  have h1: "get_container_params 1 (empty_bytes\<lparr>total_read := 1\<rparr>) False True =
     Some (\<lparr>p_marker = TYPE_UINT8, p_counting = True, p_count = 0, p_type = TYPE_UINT8,
             p_invalid = False\<rparr>, 0, [], empty_bytes\<lparr>total_read := 6\<rparr>)"
    by (simp add: empty_bytes_def read_eval scalar_eval container_eval)
  have h2: "get_container_params 1 (empty_doubles\<lparr>total_read := 1\<rparr>) False True =
     Some (\<lparr>p_marker = TYPE_FLOAT64, p_counting = True, p_count = 0, p_type = TYPE_FLOAT64,
             p_invalid = False\<rparr>, 0, [], empty_doubles\<lparr>total_read := 6\<rparr>)"
    by (simp add: empty_doubles_def read_eval scalar_eval container_eval)
  have a: "decode_array (bjdata_decode_value 0) 1 (empty_bytes\<lparr>total_read := 1\<rparr>) =
     Some (Ret (PyBytes []) (empty_bytes\<lparr>total_read := 6\<rparr>))"
    using empty_counted_array [OF h1, of "bjdata_decode_value 0"]
    by (simp add: is_fixed_len_type_def empty_bytes_def read_eval)
  have b: "decode_array (bjdata_decode_value 0) 1 (empty_doubles\<lparr>total_read := 1\<rparr>) =
     Some (Ret (PyList []) (empty_doubles\<lparr>total_read := 6\<rparr>))"
    using empty_counted_array [OF h2, of "bjdata_decode_value 0"]
    by (simp add: is_fixed_len_type_def)
  show ?thesis using a b by simp
qed

subsection \<open>Objects with duplicate keys\<close>

lemma dict_of_simps [simp]:
  "dict_of obj [] = obj"
  "dict_of obj ((key, v) # ps) = dict_of (PyDict_SetItem obj key v) ps"
  by (simp_all add: dict_of_def)













lemmas object_eval =
  decode_object_pairs_def decode_object_dict_def decode_object_def
  decode_object_with_pairs_hook_def decode_object_key_def
  DECODE_OBJECT_KEY_OR_RAISE_ENCODER_EXCEPTION_def PyDict_SetItem_def fixed_type_of_def
  call_hook_def pairs_list_def RECURSE_AND_RETURN_OR_BAIL_def




subsection \<open>No-op markers\<close>

text \<open>
  C3, as the code has it. In the element loop of a counted array and in the key loops of
  a counted object, in mapping mode and in pairs mode, a turn that finds the no-op marker
  \<open>N\<close> while elements remain does one \<open>READ_CHAR_OR_BAIL\<close> and goes on with the
  byte read as the next marker: the count, the list and the dictionary are as before. On
  a fixed buffer with a byte left that is the loop started one byte further on. The loops
  for objects of keys only (a no-data global type) are not among these.
\<close>

theorem noop_skipped_in_counted_loops:
  assumes pos: "0 < cnt"
  shows "array_counted_loop dv (Suc n) b TYPE_NOOP cnt t acc =
           (case READ_CHAR_OR_BAIL ''array value type marker (sized, after no-op)'' b of
              Bail b1 \<Rightarrow> Some (Bail b1)
            | Ret m b1 \<Rightarrow> array_counted_loop dv n b1 m cnt t acc) \<and>
         object_loop dv (Suc n) b TYPE_NOOP cnt True ft obj =
           (case READ_CHAR_OR_BAIL ''object key length'' b of
              Bail b1 \<Rightarrow> Some (Bail b1)
            | Ret m b1 \<Rightarrow> object_loop dv n b1 m cnt True ft obj) \<and>
         pairs_counted_loop dv (Suc n) b TYPE_NOOP cnt ft ps =
           (case READ_CHAR_OR_BAIL ''object key length (sized, after no-op)'' b of
              Bail b1 \<Rightarrow> Some (Bail b1)
            | Ret m b1 \<Rightarrow> pairs_counted_loop dv n b1 m cnt ft ps) \<and>
         (read_func b = READ_FIXED \<and> 0 \<le> total_read b \<and>
          total_read b < int (length (view b)) \<longrightarrow>
            array_counted_loop dv (Suc n) b TYPE_NOOP cnt t acc =
              array_counted_loop dv n (b\<lparr>total_read := total_read b + 1\<rparr>)
                (view b ! nat (total_read b)) cnt t acc \<and>
            object_loop dv (Suc n) b TYPE_NOOP cnt True ft obj =
              object_loop dv n (b\<lparr>total_read := total_read b + 1\<rparr>)
                (view b ! nat (total_read b)) cnt True ft obj \<and>
            pairs_counted_loop dv (Suc n) b TYPE_NOOP cnt ft ps =
              pairs_counted_loop dv n (b\<lparr>total_read := total_read b + 1\<rparr>)
                (view b ! nat (total_read b)) cnt ft ps)"
proof -
  have a: "array_counted_loop dv (Suc n) b TYPE_NOOP cnt t acc =
      (case READ_CHAR_OR_BAIL ''array value type marker (sized, after no-op)'' b of
         Bail b1 \<Rightarrow> Some (Bail b1)
       | Ret m b1 \<Rightarrow> array_counted_loop dv n b1 m cnt t acc)"
    using pos by simp
  have o: "object_loop dv (Suc n) b TYPE_NOOP cnt True ft obj =
      (case READ_CHAR_OR_BAIL ''object key length'' b of
         Bail b1 \<Rightarrow> Some (Bail b1)
       | Ret m b1 \<Rightarrow> object_loop dv n b1 m cnt True ft obj)"
    using pos by simp
  have p: "pairs_counted_loop dv (Suc n) b TYPE_NOOP cnt ft ps =
      (case READ_CHAR_OR_BAIL ''object key length (sized, after no-op)'' b of
         Bail b1 \<Rightarrow> Some (Bail b1)
       | Ret m b1 \<Rightarrow> pairs_counted_loop dv n b1 m cnt ft ps)"
    using pos by simp
  have f: "array_counted_loop dv (Suc n) b TYPE_NOOP cnt t acc =
        array_counted_loop dv n (b\<lparr>total_read := total_read b + 1\<rparr>)
          (view b ! nat (total_read b)) cnt t acc \<and>
      object_loop dv (Suc n) b TYPE_NOOP cnt True ft obj =
        object_loop dv n (b\<lparr>total_read := total_read b + 1\<rparr>)
          (view b ! nat (total_read b)) cnt True ft obj \<and>
      pairs_counted_loop dv (Suc n) b TYPE_NOOP cnt ft ps =
        pairs_counted_loop dv n (b\<lparr>total_read := total_read b + 1\<rparr>)
          (view b ! nat (total_read b)) cnt ft ps"
    if "read_func b = READ_FIXED" "0 \<le> total_read b" "total_read b < int (length (view b))"
    unfolding a o p by (simp add: READ_CHAR_OR_BAIL_fixed [OF that])
  show ?thesis
    using a o p f by blast
qed

theorem noop_skipped_in_counted_loops_witness:
  "array_counted_loop (bjdata_decode_value 1) 6 (noop_array\<lparr>total_read := 5\<rparr>) TYPE_NOOP 2
     TYPE_NONE [] =
     Some (Ret (PyList [PyLong 1, PyLong 2]) (noop_array\<lparr>total_read := 11\<rparr>)) \<and>
   object_loop (bjdata_decode_value 1) 3 (noop_object\<lparr>total_read := 5\<rparr>) TYPE_NOOP 1 True None [] =
     Some (Ret [(''a'', PyNone)] (noop_object\<lparr>total_read := 9\<rparr>))"
proof -
  have fa: "read_func (noop_array\<lparr>total_read := 5\<rparr>) = READ_FIXED \<and>
      0 \<le> total_read (noop_array\<lparr>total_read := 5\<rparr>) \<and>
      total_read (noop_array\<lparr>total_read := 5\<rparr>) <
        int (length (view (noop_array\<lparr>total_read := 5\<rparr>)))"
    by (simp add: noop_array_def read_eval)
  have fo: "read_func (noop_object\<lparr>total_read := 5\<rparr>) = READ_FIXED \<and>
      0 \<le> total_read (noop_object\<lparr>total_read := 5\<rparr>) \<and>
      total_read (noop_object\<lparr>total_read := 5\<rparr>) <
        int (length (view (noop_object\<lparr>total_read := 5\<rparr>)))"
    by (simp add: noop_object_def read_eval)
  have two: "(0::int) < 2" and one: "(0::int) < 1"
    by simp_all
  have five: "(5::nat) = Suc (Suc (Suc (Suc (Suc 0))))"
    by simp
  have a: "array_counted_loop (bjdata_decode_value 1) (Suc 5) (noop_array\<lparr>total_read := 5\<rparr>)
        TYPE_NOOP 2 TYPE_NONE [] =
      array_counted_loop (bjdata_decode_value 1) 5
        (noop_array\<lparr>total_read := 5\<rparr>\<lparr>total_read := total_read (noop_array\<lparr>total_read := 5\<rparr>) + 1\<rparr>)
        (view (noop_array\<lparr>total_read := 5\<rparr>) ! nat (total_read (noop_array\<lparr>total_read := 5\<rparr>)))
        2 TYPE_NONE []"
    using noop_skipped_in_counted_loops [OF two, THEN conjunct2, THEN conjunct2, THEN conjunct2,
        THEN mp, OF fa]
    by blast
  have o: "object_loop (bjdata_decode_value 1) (Suc 2) (noop_object\<lparr>total_read := 5\<rparr>)
        TYPE_NOOP 1 True None [] =
      object_loop (bjdata_decode_value 1) 2
        (noop_object\<lparr>total_read := 5\<rparr>\<lparr>total_read := total_read (noop_object\<lparr>total_read := 5\<rparr>) + 1\<rparr>)
        (view (noop_object\<lparr>total_read := 5\<rparr>) ! nat (total_read (noop_object\<lparr>total_read := 5\<rparr>)))
        1 True None []"
    using noop_skipped_in_counted_loops [OF one, THEN conjunct2, THEN conjunct2, THEN conjunct2,
        THEN mp, OF fo]
    by blast
  have ra: "array_counted_loop (bjdata_decode_value 1) 5
        (noop_array\<lparr>total_read := 5\<rparr>\<lparr>total_read := total_read (noop_array\<lparr>total_read := 5\<rparr>) + 1\<rparr>)
        (view (noop_array\<lparr>total_read := 5\<rparr>) ! nat (total_read (noop_array\<lparr>total_read := 5\<rparr>)))
        2 TYPE_NONE [] =
      Some (Ret (PyList [PyLong 1, PyLong 2]) (noop_array\<lparr>total_read := 11\<rparr>))"
    by (simp add: noop_array_def five read_eval scalar_eval)
  have ro: "object_loop (bjdata_decode_value 1) 2
        (noop_object\<lparr>total_read := 5\<rparr>\<lparr>total_read := total_read (noop_object\<lparr>total_read := 5\<rparr>) + 1\<rparr>)
        (view (noop_object\<lparr>total_read := 5\<rparr>) ! nat (total_read (noop_object\<lparr>total_read := 5\<rparr>)))
        1 True None [] =
      Some (Ret [(''a'', PyNone)] (noop_object\<lparr>total_read := 9\<rparr>))"
    by (simp add: noop_object_def numeral_2_eq_2 read_eval scalar_eval object_eval)
  have s: "(6::nat) = Suc 5" "(3::nat) = Suc 2"
    by simp_all
  show ?thesis
    unfolding s a o ra ro by simp
qed

text \<open>
  The input \<open>{ $ Z # U 01 N U 01 a\<close>: in the loop for keys only the no-op marker is
  taken as the marker of the key's length, and decoding fails.
\<close>

theorem noop_no_data_counterexample:
  "map_option raised (bjdata_decode_value 1 noop_no_data None) =
     Some (Some (DecoderException ''Failed to decode object key (sized, no data)'' 7)) \<and>
   map_option returned (bjdata_decode_value 1 noop_no_data None) = Some None"
  by (simp add: noop_no_data_def read_eval scalar_eval container_eval object_eval
      raised_def returned_def)

end
